theory Spec2Isabelle
  imports Complex_Main "HOL-Library.AList" "HOL-Library.Char_ord" "HOL-Library.List_Lexorder"
    "HOL-Library.Log_Nat"
begin

section \<open>JSON documents and Python values\<close>

text \<open>
  The state documents, the sweep configuration, the events and the alerts are loosely typed
  Python values obtained from \<^verbatim>\<open>json.loads\<close>. A dict is an association list in insertion
  order (the order Python iterates it); JSON numbers are the integers (non-integer numbers
  are outside the model). Strings are lists of 8-bit characters read as code points below 256.
\<close>

datatype json =
    JNull
  | JBool bool
  | JInt int
  | JStr string
  | JArr "json list"
  | JObj "(string \<times> json) list"

text \<open>\<^verbatim>\<open>d.get(k)\<close>: the value, or \<^verbatim>\<open>None\<close> when the key is absent.\<close>

definition dict_get :: "(string \<times> json) list \<Rightarrow> string \<Rightarrow> json" where
  "dict_get kvs k = (case map_of kvs k of None \<Rightarrow> JNull | Some v \<Rightarrow> v)"

text \<open>\<^verbatim>\<open>d.get(k, dflt)\<close>.\<close>

definition dict_get_default :: "(string \<times> json) list \<Rightarrow> string \<Rightarrow> json \<Rightarrow> json" where
  "dict_get_default kvs k dflt = (case map_of kvs k of None \<Rightarrow> dflt | Some v \<Rightarrow> v)"

text \<open>\<^verbatim>\<open>k in d\<close>.\<close>

definition dict_has :: "(string \<times> json) list \<Rightarrow> string \<Rightarrow> bool" where
  "dict_has kvs k = (map_of kvs k \<noteq> None)"

text \<open>\<^verbatim>\<open>d[k] = v\<close>: an existing key keeps its position, a new key goes last.\<close>

definition dict_set :: "(string \<times> json) list \<Rightarrow> string \<Rightarrow> json \<Rightarrow> (string \<times> json) list" where
  "dict_set kvs k v = AList.update k v kvs"

text \<open>\<^verbatim>\<open>d.setdefault(k, v)\<close>, for its effect on the dict.\<close>

definition dict_setdefault :: "(string \<times> json) list \<Rightarrow> string \<Rightarrow> json \<Rightarrow> (string \<times> json) list" where
  "dict_setdefault kvs k v = (if dict_has kvs k then kvs else kvs @ [(k, v)])"

text \<open>Truthiness of a value, as \<^verbatim>\<open>if v:\<close> and \<^verbatim>\<open>v or dflt\<close> test it.\<close>

fun truthy :: "json \<Rightarrow> bool" where
  "truthy JNull = False"
| "truthy (JBool b) = b"
| "truthy (JInt i) = (i \<noteq> 0)"
| "truthy (JStr s) = (s \<noteq> [])"
| "truthy (JArr xs) = (xs \<noteq> [])"
| "truthy (JObj kvs) = (kvs \<noteq> [])"

text \<open>\<^verbatim>\<open>v or dflt\<close>.\<close>

definition py_or :: "json \<Rightarrow> json \<Rightarrow> json" where
  "py_or v dflt = (if truthy v then v else dflt)"

text \<open>
  What a file holds once \<^verbatim>\<open>json.dumps(obj, sort_keys=True, indent=2)\<close> has written it and
  \<^verbatim>\<open>json.loads\<close> reads it again: every dict comes back with its keys in sorted order, lists keep
  their order, scalars are unchanged.
\<close>

fun sort_keys :: "json \<Rightarrow> json" where
  "sort_keys (JArr xs) = JArr (map sort_keys xs)"
| "sort_keys (JObj kvs) = JObj (sort_key fst (map (\<lambda>(k, v). (k, sort_keys v)) kvs))"
| "sort_keys j = j"

declare sort_keys.simps [simp del]

subsection \<open>Strings\<close>

text \<open>The characters \<^verbatim>\<open>str.strip()\<close> removes, among the code points below 256.\<close>

definition py_isspace :: "char \<Rightarrow> bool" where
  "py_isspace c =
     (c \<in> set [CHR 0x09, CHR 0x0A, CHR 0x0B, CHR 0x0C, CHR 0x0D, CHR 0x1C, CHR 0x1D, CHR 0x1E,
                 CHR 0x1F, CHR 0x20, CHR 0x85, CHR 0xA0])"

definition strip :: "string \<Rightarrow> string" where
  "strip s = rev (dropWhile py_isspace (rev (dropWhile py_isspace s)))"

definition endswith :: "string \<Rightarrow> string \<Rightarrow> bool" where
  "endswith s suffix = (length suffix \<le> length s \<and> drop (length s - length suffix) s = suffix)"

fun nat_str :: "nat \<Rightarrow> string" where
  "nat_str n = (if n < 10 then [''0123456789'' ! n] else nat_str (n div 10) @ [''0123456789'' ! (n mod 10)])"

declare nat_str.simps [simp del]

text \<open>\<^verbatim>\<open>str(i)\<close> of an int.\<close>

definition int_str :: "int \<Rightarrow> string" where
  "int_str i = (if i < 0 then CHR ''-'' # nat_str (nat (- i)) else nat_str (nat i))"

text \<open>A decimal field of fixed width, zero-padded (\<^verbatim>\<open>%02d\<close>, \<^verbatim>\<open>%04d\<close>, \<^verbatim>\<open>%06d\<close>).\<close>

definition zpad :: "nat \<Rightarrow> nat \<Rightarrow> string" where
  "zpad width n = replicate (width - length (nat_str n)) CHR ''0'' @ nat_str n"

text \<open>\<^verbatim>\<open>sep.join(parts)\<close>.\<close>

fun join :: "string \<Rightarrow> string list \<Rightarrow> string" where
  "join sep [] = []"
| "join sep [x] = x"
| "join sep (x # y # ys) = x @ sep @ join sep (y # ys)"

subsection \<open>Exceptions\<close>

datatype exn =
    FileNotFoundError
  | JSONDecodeError
  | ValueError
  | TypeError
  | AttributeError
  | OverflowError

subsection \<open>Dates and times\<close>

text \<open>
  A \<^verbatim>\<open>datetime\<close> is its wall-clock reading, in microseconds since 0001-01-01T00:00:00, and
  its UTC offset in microseconds, \<open>None\<close> for a naive value. Python keeps the wall clock
  within the years 1 to 9999 and raises \<^verbatim>\<open>OverflowError\<close> when arithmetic leaves that range;
  a \<^verbatim>\<open>timedelta\<close> is a number of microseconds of at most 999999999 days.
\<close>

record datetime =
  wall :: int
  utcoffset :: "int option"

definition usec_per_day :: int where
  "usec_per_day = 86400000000"

definition max_wall :: int where
  "max_wall = 3652059 * 86400000000 - 1"

definition utc_datetime :: "int \<Rightarrow> datetime" where
  "utc_datetime t = \<lparr>wall = t, utcoffset = Some 0\<rparr>"

text \<open>\<^verbatim>\<open>timedelta(minutes=m)\<close>.\<close>

definition timedelta_minutes :: "int \<Rightarrow> exn + int" where
  "timedelta_minutes m =
     (let us = m * 60000000; days = us div usec_per_day
      in if - 999999999 \<le> days \<and> days \<le> 999999999 then Inr us else Inl OverflowError)"

text \<open>\<^verbatim>\<open>dt + td\<close> (and \<^verbatim>\<open>dt - td\<close> with the delta negated): the offset is kept.\<close>

definition dt_add :: "datetime \<Rightarrow> int \<Rightarrow> exn + datetime" where
  "dt_add d us =
     (let w = wall d + us
      in if 0 \<le> w \<and> w \<le> max_wall then Inr (d\<lparr>wall := w\<rparr>) else Inl OverflowError)"

text \<open>
  \<^verbatim>\<open>a <= b\<close> on datetimes: two aware values compare as instants, two naive values by their
  wall clocks, and a naive value against an aware one raises \<^verbatim>\<open>TypeError\<close>.
\<close>

definition dt_le :: "datetime \<Rightarrow> datetime \<Rightarrow> exn + bool" where
  "dt_le a b =
     (case (utcoffset a, utcoffset b) of
        (Some oa, Some ob) \<Rightarrow> Inr (wall a - oa \<le> wall b - ob)
      | (None, None) \<Rightarrow> Inr (wall a \<le> wall b)
      | _ \<Rightarrow> Inl TypeError)"

text \<open>\<^verbatim>\<open>a - b\<close> on datetimes, in microseconds.\<close>

definition dt_diff :: "datetime \<Rightarrow> datetime \<Rightarrow> exn + int" where
  "dt_diff a b =
     (case (utcoffset a, utcoffset b) of
        (Some oa, Some ob) \<Rightarrow> Inr ((wall a - oa) - (wall b - ob))
      | (None, None) \<Rightarrow> Inr (wall a - wall b)
      | _ \<Rightarrow> Inl TypeError)"

text \<open>The proleptic Gregorian calendar: day number (0 is 0001-01-01) to year, month, day and back.\<close>

definition civil_from_days :: "int \<Rightarrow> int \<times> int \<times> int" where
  "civil_from_days n =
     (let z = n + 306;
          era = z div 146097;
          doe = z mod 146097;
          yoe = (doe - doe div 1460 + doe div 36524 - doe div 146096) div 365;
          doy = doe - (365 * yoe + yoe div 4 - yoe div 100);
          mp = (5 * doy + 2) div 153;
          d = doy - (153 * mp + 2) div 5 + 1;
          m = (if mp < 10 then mp + 3 else mp - 9);
          y = yoe + era * 400 + (if m \<le> 2 then 1 else 0)
      in (y, m, d))"

definition days_from_civil :: "int \<Rightarrow> int \<Rightarrow> int \<Rightarrow> int" where
  "days_from_civil y m d =
     (let y' = (if m \<le> 2 then y - 1 else y);
          era = y' div 400;
          yoe = y' mod 400;
          doy = (153 * (if m > 2 then m - 3 else m + 9) + 2) div 5 + d - 1;
          doe = yoe * 365 + yoe div 4 - yoe div 100 + doy
      in era * 146097 + doe - 306)"

text \<open>The offset suffix of \<^verbatim>\<open>isoformat()\<close>: \<^verbatim>\<open>+HH:MM\<close>, with seconds and microseconds only when not zero.\<close>

definition offset_str :: "int \<Rightarrow> string" where
  "offset_str off =
     (let a = nat \<bar>off\<bar>;
          us = a mod 1000000;
          s = (a div 1000000) mod 60;
          mi = (a div 60000000) mod 60;
          h = a div 3600000000
      in (if off < 0 then ''-'' else ''+'') @ zpad 2 h @ '':'' @ zpad 2 mi
         @ (if s \<noteq> 0 \<or> us \<noteq> 0 then '':'' @ zpad 2 s else [])
         @ (if us \<noteq> 0 then ''.'' @ zpad 6 us else []))"

text \<open>The date and the time of day of \<^verbatim>\<open>isoformat()\<close>: \<^verbatim>\<open>YYYY-MM-DD\<close> and \<^verbatim>\<open>HH:MM:SS[.ffffff]\<close>.\<close>

fun date_str :: "int \<times> int \<times> int \<Rightarrow> string" where
  "date_str (y, m, d) = zpad 4 (nat y) @ ''-'' @ zpad 2 (nat m) @ ''-'' @ zpad 2 (nat d)"

definition time_str :: "nat \<Rightarrow> string" where
  "time_str r =
     zpad 2 (r div 3600000000) @ '':'' @ zpad 2 ((r div 60000000) mod 60) @ '':''
     @ zpad 2 ((r div 1000000) mod 60)
     @ (if r mod 1000000 \<noteq> 0 then ''.'' @ zpad 6 (r mod 1000000) else [])"

text \<open>\<^verbatim>\<open>dt.isoformat()\<close>.\<close>

definition isoformat :: "datetime \<Rightarrow> string" where
  "isoformat d =
     date_str (civil_from_days (wall d div usec_per_day)) @ ''T''
     @ time_str (nat (wall d mod usec_per_day))
     @ (case utcoffset d of None \<Rightarrow> [] | Some off \<Rightarrow> offset_str off)"

subsection \<open>Double-precision numbers\<close>

text \<open>
  A Python \<^verbatim>\<open>float\<close> is an IEEE 754 double. A finite double is written as a pair \<open>(m, e)\<close>
  of integers standing for \<open>m * 2 ^ e\<close>; a result of rounding carries 53 significant bits
  in \<open>m\<close>. Every operation rounds to the nearest double, ties to the even significand.
  Subnormal numbers and infinities are not represented: the quotients the program forms,
  of datetimes between the years 1 and 9999, are zero or lie between \<open>10 ^ - 8\<close> and
  \<open>10 ^ 12\<close> in magnitude.
\<close>

type_synonym double = "int \<times> int"

text \<open>The integer nearest to \<open>a / b\<close>, for \<open>b > 0\<close>, ties to even.\<close>

definition round_half_even :: "int \<Rightarrow> int \<Rightarrow> int" where
  "round_half_even a b =
     (if 2 * (a mod b) < b then a div b
      else if b < 2 * (a mod b) then a div b + 1
      else if even (a div b) then a div b else a div b + 1)"

text \<open>The exponent of \<open>a / b\<close>, for \<open>a, b > 0\<close>: the \<open>l\<close> with \<open>2 ^ l \<le> a / b < 2 ^ (l + 1)\<close>.\<close>

definition floor_log2 :: "int \<Rightarrow> int \<Rightarrow> int" where
  "floor_log2 a b =
     (if b * 2 ^ nat (bitlen a - bitlen b) \<le> a * 2 ^ nat (bitlen b - bitlen a)
      then bitlen a - bitlen b else bitlen a - bitlen b - 1)"

text \<open>
  The double nearest to \<open>a / b\<close>, for \<open>b > 0\<close>: \<^verbatim>\<open>a / b\<close> on two ints (true division is
  correctly rounded).
\<close>

definition round_double :: "int \<Rightarrow> int \<Rightarrow> double" where
  "round_double a b =
     (if a = 0 then (0, 0)
      else (sgn a * round_half_even (\<bar>a\<bar> * 2 ^ nat (52 - floor_log2 \<bar>a\<bar> b))
                                    (b * 2 ^ nat (floor_log2 \<bar>a\<bar> b - 52)),
            floor_log2 \<bar>a\<bar> b - 52))"

text \<open>\<^verbatim>\<open>x / y\<close> on two doubles, \<open>y\<close> not zero.\<close>

definition double_div :: "double \<Rightarrow> double \<Rightarrow> double" where
  "double_div x y =
     round_double (sgn (fst y) * fst x * 2 ^ nat (snd x - snd y)) (\<bar>fst y\<bar> * 2 ^ nat (snd y - snd x))"

text \<open>\<^verbatim>\<open>x < y\<close> on two doubles.\<close>

definition double_less :: "double \<Rightarrow> double \<Rightarrow> bool" where
  "double_less x y \<longleftrightarrow> fst x * 2 ^ nat (snd x - snd y) < fst y * 2 ^ nat (snd y - snd x)"

text \<open>
  \<^verbatim>\<open>float(n)\<close> of an int: the nearest double, \<^verbatim>\<open>OverflowError\<close> when that would lie beyond
  the largest double.
\<close>

definition float_of_int :: "int \<Rightarrow> exn + double" where
  "float_of_int n =
     (if 2 ^ 1024 - 2 ^ 970 \<le> \<bar>n\<bar> then Inl OverflowError else Inr (round_double n 1))"

definition trunc_div :: "int \<Rightarrow> int \<Rightarrow> int" where
  "trunc_div a b = (if a < 0 then - ((- a) div b) else a div b)"

text \<open>\<^verbatim>\<open>int(x)\<close> of a double: truncation towards zero.\<close>

definition int_of_double :: "double \<Rightarrow> int" where
  "int_of_double x =
     (if 0 \<le> snd x then fst x * 2 ^ nat (snd x) else trunc_div (fst x) (2 ^ nat (- snd x)))"

text \<open>The real number a double stands for.\<close>

definition dval :: "double \<Rightarrow> real" where
  "dval x = of_int (fst x) * 2 powi (snd x)"

text \<open>
  \<^verbatim>\<open>td.total_seconds()\<close> of a difference of \<open>us\<close> microseconds: the true division
  \<^verbatim>\<open>microseconds / 10**6\<close>.
\<close>

definition total_seconds :: "int \<Rightarrow> double" where
  "total_seconds us = round_double us 1000000"

text \<open>
  \<^verbatim>\<open>int(dt.timestamp())\<close> of an aware datetime, given its instant: \<^verbatim>\<open>timestamp()\<close> is
  \<^verbatim>\<open>(dt - epoch).total_seconds()\<close>, a double, and \<^verbatim>\<open>int\<close> truncates it towards zero.
\<close>

definition epoch_wall :: int where
  "epoch_wall = 719162 * 86400000000"

definition int_timestamp :: "int \<Rightarrow> int" where
  "int_timestamp utc = int_of_double (total_seconds (utc - epoch_wall))"

subsection \<open>Library functions and collaborators\<close>

text \<open>
  What the program takes from outside its own source: the system clock (\<open>clock E n\<close> is the
  \<open>n\<close>-th reading of \<^verbatim>\<open>datetime.now(timezone.utc)\<close>, a wall clock in UTC),
  \<^verbatim>\<open>datetime.fromisoformat\<close> (\<open>None\<close> for \<^verbatim>\<open>ValueError\<close>), \<^verbatim>\<open>str()\<close> of a list or
  dict, \<^verbatim>\<open>int()\<close> of a string, the hexadecimal digits of the \<open>n\<close>-th \<^verbatim>\<open>uuid.uuid4()\<close>,
  and the alert schema (whether \<^verbatim>\<open>iter_errors\<close> finds no error). The theorems hold for every
  such environment unless they say otherwise.
\<close>

record pyenv =
  clock :: "nat \<Rightarrow> int"
  fromisoformat :: "string \<Rightarrow> datetime option"
  py_repr :: "json \<Rightarrow> string"
  int_of_str :: "string \<Rightarrow> int option"
  uuid4_hex :: "nat \<Rightarrow> string"
  schema_ok :: "json \<Rightarrow> bool"

text \<open>\<^verbatim>\<open>str(v)\<close>.\<close>

definition py_str :: "pyenv \<Rightarrow> json \<Rightarrow> string" where
  "py_str E v =
     (case v of
        JNull \<Rightarrow> ''None''
      | JBool b \<Rightarrow> (if b then ''True'' else ''False'')
      | JInt i \<Rightarrow> int_str i
      | JStr s \<Rightarrow> s
      | _ \<Rightarrow> py_repr E v)"

text \<open>\<^verbatim>\<open>_safe_str\<close> of app.py: \<^verbatim>\<open>None\<close> stays \<^verbatim>\<open>None\<close>, a blank string becomes \<^verbatim>\<open>None\<close>.\<close>

definition safe_str :: "pyenv \<Rightarrow> json \<Rightarrow> string option" where
  "safe_str E v =
     (if v = JNull then None
      else if strip (py_str E v) = [] then None
      else Some (strip (py_str E v)))"

text \<open>\<^verbatim>\<open>_safe_str(v) or dflt\<close>.\<close>

definition safe_str_or :: "pyenv \<Rightarrow> json \<Rightarrow> string \<Rightarrow> string" where
  "safe_str_or E v dflt = (case safe_str E v of None \<Rightarrow> dflt | Some s \<Rightarrow> s)"

subsection \<open>The files and the clock\<close>

text \<open>
  A JSON file is seen through what reading it gives: no file, a blank file (empty or only
  white space), text that \<^verbatim>\<open>json.loads\<close> rejects, or the value \<^verbatim>\<open>json.loads\<close> returns.
\<close>

datatype content = Absent | Blank | NotJson | Json json

text \<open>
  The audit trail: one entry per \<^verbatim>\<open>AuditLogger\<close> call of the sweep, with the identifying
  fields (the \<^verbatim>\<open>logged_at\<close> stamp and the free text of an error are left out).
\<close>

datatype audit_rec =
    InternalError string string "string option" "string option" "string option"
  | RoutingApplied "string option" string "string list" string
  | AlertSuppressed "string option" string string int "string option"
  | CorrelationHit "string option" string "string list" int
  | AlertBuilt "string option" string string "string option" "string option"
  | AlertPersisted "string option"

record world =
  ticks :: nat
  corr_file :: content
  supp_file :: content
  alerts_file :: "json list"
  audit_log :: "audit_rec list"
  uuids_drawn :: nat
  stderr :: "string list"
  stdout :: "string list"

text \<open>\<^verbatim>\<open>datetime.now(timezone.utc)\<close>: the next reading of the clock.\<close>

definition now_utc :: "pyenv \<Rightarrow> world \<Rightarrow> datetime \<times> world" where
  "now_utc E w = (utc_datetime (clock E (ticks w)), w\<lparr>ticks := Suc (ticks w)\<rparr>)"

section \<open>The correlation store (engine/correlation.py)\<close>

definition VERSION :: string where
  "VERSION = ''0.1''"

definition empty_doc :: "(string \<times> json) list" where
  "empty_doc = [(''version'', JStr VERSION), (''groups'', JObj [])]"

text \<open>\<^verbatim>\<open>CorrelationStore._parse_iso\<close>.\<close>

definition store_parse_iso :: "pyenv \<Rightarrow> string \<Rightarrow> datetime option" where
  "store_parse_iso E ts =
     (let s = strip ts
      in fromisoformat E (if endswith s ''Z'' then butlast s @ ''+00:00'' else s))"

text \<open>\<^verbatim>\<open>_write_atomic\<close>: the temporary file replaces the state file in one step.\<close>

definition write_atomic :: "(string \<times> json) list \<Rightarrow> world \<Rightarrow> world" where
  "write_atomic obj w = w\<lparr>corr_file := Json (sort_keys (JObj obj))\<rparr>"

text \<open>The \<^verbatim>\<open>try\<close> block of \<^verbatim>\<open>_read_safe\<close>.\<close>

definition load_state :: "content \<Rightarrow> exn + (string \<times> json) list" where
  "load_state c =
     (case c of
        Absent \<Rightarrow> Inl FileNotFoundError
      | Blank \<Rightarrow> Inl ValueError
      | NotJson \<Rightarrow> Inl JSONDecodeError
      | Json (JObj doc) \<Rightarrow>
          (case dict_get doc ''groups'' of
             JObj g \<Rightarrow>
               if dict_has doc ''groups''
               then Inr (if dict_has doc ''version'' then doc else dict_set doc ''version'' (JStr VERSION))
               else Inl ValueError
           | _ \<Rightarrow> Inl ValueError)
      | Json _ \<Rightarrow> Inl ValueError)"

definition read_safe :: "bool \<Rightarrow> world \<Rightarrow> (exn + (string \<times> json) list) \<times> world" where
  "read_safe recover w =
     (case load_state (corr_file w) of
        Inr doc \<Rightarrow> (Inr doc, w)
      | Inl e \<Rightarrow>
          if \<not> recover then (Inl e, w)
          else (Inr empty_doc, write_atomic empty_doc w))"

text \<open>\<^verbatim>\<open>doc.get("groups", {}) or {}\<close>, used as a dict by the callers.\<close>

definition doc_groups :: "(string \<times> json) list \<Rightarrow> exn + (string \<times> json) list" where
  "doc_groups doc =
     (case py_or (dict_get_default doc ''groups'' (JObj [])) (JObj []) of
        JObj g \<Rightarrow> Inr g
      | _ \<Rightarrow> Inl AttributeError)"

text \<open>\<^verbatim>\<open>doc["version"] = doc.get("version") or self.VERSION\<close>.\<close>

definition set_version :: "(string \<times> json) list \<Rightarrow> (string \<times> json) list" where
  "set_version doc = dict_set doc ''version'' (py_or (dict_get doc ''version'') (JStr VERSION))"

definition make_record :: "string \<Rightarrow> string \<Rightarrow> string \<Rightarrow> string option \<Rightarrow> json" where
  "make_record event_id event_type ts batch_token =
     JObj [(''event_id'', JStr event_id),
           (''event_type'', JStr event_type),
           (''event_timestamp'', JStr ts),
           (''batch_token'', (case batch_token of None \<Rightarrow> JNull
                              | Some b \<Rightarrow> if b = [] then JNull else JStr b))]"

definition add_event ::
  "pyenv \<Rightarrow> string \<Rightarrow> string \<Rightarrow> string \<Rightarrow> string \<Rightarrow> string option \<Rightarrow> world \<Rightarrow> (exn + unit) \<times> world" where
  "add_event E group_key event_id event_type event_timestamp batch_token w =
     (case read_safe True w of
        (Inl e, w1) \<Rightarrow> (Inl e, w1)
      | (Inr doc, w1) \<Rightarrow>
          (case doc_groups doc of
             Inl e \<Rightarrow> (Inl e, w1)
           | Inr groups \<Rightarrow>
               if strip group_key = [] then (Inr (), w1)
               else
                 (case (if strip event_timestamp = []
                        then (case now_utc E w1 of (n, w') \<Rightarrow> (isoformat n, w'))
                        else (strip event_timestamp, w1)) of
                    (ts, w2) \<Rightarrow>
                      let lst = (case dict_get_default groups (strip group_key) (JArr []) of
                                   JArr xs \<Rightarrow> xs | _ \<Rightarrow> []);
                          groups' = dict_set groups (strip group_key)
                                      (JArr (lst @ [make_record event_id event_type ts batch_token]));
                          doc' = set_version (dict_set doc ''groups'' (JObj groups'))
                      in (Inr (), write_atomic doc' w2))))"

text \<open>
  The body of the inner loop of \<^verbatim>\<open>prune\<close>: the timestamp of a record (\<open>None\<close> when the
  entry is not a dict or \<^verbatim>\<open>_parse_iso\<close> raises), and whether the record is kept (any
  exception of the comparison drops it as well).
\<close>

definition record_timestamp :: "pyenv \<Rightarrow> json \<Rightarrow> datetime option" where
  "record_timestamp E e =
     (case e of
        JObj r \<Rightarrow>
          store_parse_iso E (strip (py_str E (py_or (dict_get r ''event_timestamp'') (JStr []))))
      | _ \<Rightarrow> None)"

definition keep_event :: "pyenv \<Rightarrow> datetime \<Rightarrow> json \<Rightarrow> bool" where
  "keep_event E cutoff e =
     (case record_timestamp E e of
        None \<Rightarrow> False
      | Some ts \<Rightarrow> (case dt_le cutoff ts of Inr b \<Rightarrow> b | Inl _ \<Rightarrow> False))"

text \<open>The outer loop of \<^verbatim>\<open>prune\<close>, with \<^verbatim>\<open>new_groups\<close> as accumulator.\<close>

fun prune_groups ::
  "pyenv \<Rightarrow> datetime \<Rightarrow> (string \<times> json) list \<Rightarrow> (string \<times> json) list \<Rightarrow> (string \<times> json) list" where
  "prune_groups E cutoff [] new_groups = new_groups"
| "prune_groups E cutoff ((gk, events) # rest) new_groups =
     (case events of
        JArr es \<Rightarrow>
          prune_groups E cutoff rest
            (if filter (keep_event E cutoff) es \<noteq> []
             then dict_set new_groups gk (JArr (filter (keep_event E cutoff) es))
             else new_groups)
      | _ \<Rightarrow> prune_groups E cutoff rest new_groups)"

text \<open>\<^verbatim>\<open>cutoff = now - timedelta(minutes=int(max_age_minutes))\<close>.\<close>

definition cutoff_at :: "datetime \<Rightarrow> int \<Rightarrow> exn + datetime" where
  "cutoff_at now max_age_minutes =
     (case timedelta_minutes max_age_minutes of
        Inl e \<Rightarrow> Inl e
      | Inr td \<Rightarrow> dt_add now (- td))"

definition prune :: "pyenv \<Rightarrow> int \<Rightarrow> world \<Rightarrow> (exn + unit) \<times> world" where
  "prune E max_age_minutes w =
     (case read_safe True w of
        (Inl e, w1) \<Rightarrow> (Inl e, w1)
      | (Inr doc, w1) \<Rightarrow>
          (case doc_groups doc of
             Inl e \<Rightarrow> (Inl e, w1)
           | Inr groups \<Rightarrow>
               (case now_utc E w1 of
                  (now, w2) \<Rightarrow>
                    (case cutoff_at now max_age_minutes of
                       Inl e \<Rightarrow> (Inl e, w2)
                     | Inr cutoff \<Rightarrow>
                         (Inr (),
                          write_atomic
                            (set_version (dict_set doc ''groups'' (JObj (prune_groups E cutoff groups []))))
                            w2)))))"

definition get_group_events :: "string \<Rightarrow> world \<Rightarrow> (exn + json) \<times> world" where
  "get_group_events group_key w =
     (case read_safe True w of
        (Inl e, w1) \<Rightarrow> (Inl e, w1)
      | (Inr doc, w1) \<Rightarrow>
          (case doc_groups doc of
             Inl e \<Rightarrow> (Inl e, w1)
           | Inr groups \<Rightarrow> (Inr (dict_get_default groups group_key (JArr [])), w1)))"

section \<open>The routing policy (engine/routing.py)\<close>

record routing_policy =
  rp_version :: string
  allowed :: "string list"
  aliases :: "(string \<times> string) list"

text \<open>
  \<^verbatim>\<open>RoutingPolicy.normalize\<close>: each consumer is trimmed and replaced by its alias, a consumer
  outside the allow-list raises \<^verbatim>\<open>ValueError\<close>, and the result is sorted without duplicates.
\<close>

definition normalize :: "routing_policy \<Rightarrow> string list option \<Rightarrow> exn + string list" where
  "normalize pol consumers =
     (case consumers of
        None \<Rightarrow> Inr []
      | Some cs \<Rightarrow>
          if cs = [] then Inr []
          else
            let normalized =
                  map (\<lambda>c. case map_of (aliases pol) (strip c) of None \<Rightarrow> strip c | Some a \<Rightarrow> a) cs
            in if \<exists>c \<in> set normalized. c \<notin> set (allowed pol) then Inl ValueError
               else Inr (sort (remdups normalized)))"

section \<open>The suppression store (engine/suppression.py)\<close>

record decision =
  suppressed :: bool
  suppression_key :: string
  window_minutes :: int
  last_emitted_at :: "string option"
  reason :: string

text \<open>\<^verbatim>\<open>json.loads(path.read_text())\<close>, with no recovery.\<close>

definition read_json :: "content \<Rightarrow> exn + json" where
  "read_json c =
     (case c of
        Absent \<Rightarrow> Inl FileNotFoundError
      | Blank \<Rightarrow> Inl JSONDecodeError
      | NotJson \<Rightarrow> Inl JSONDecodeError
      | Json j \<Rightarrow> Inr j)"

text \<open>
  The test of \<^verbatim>\<open>check_and_update\<close> on the stored value \<^verbatim>\<open>last\<close>: it is truthy, it parses,
  and \<^verbatim>\<open>(now - last_dt).total_seconds() / 60.0 < float(window_minutes)\<close>, in doubles. Every
  exception inside the \<^verbatim>\<open>try\<close> (a value that is not a string, a string that does not
  parse, a naive datetime subtracted from an aware one, a window too large for a float)
  fails open.
\<close>

definition within_window :: "pyenv \<Rightarrow> datetime \<Rightarrow> json \<Rightarrow> int \<Rightarrow> bool" where
  "within_window E now last_value window =
     (truthy last_value \<and>
      (case last_value of
         JStr s \<Rightarrow>
           (case fromisoformat E s of
              None \<Rightarrow> False
            | Some last_dt \<Rightarrow>
                (case dt_diff now last_dt of
                   Inl ex \<Rightarrow> False
                 | Inr delta \<Rightarrow>
                     (case float_of_int window of
                        Inl ex \<Rightarrow> False
                      | Inr w \<Rightarrow> double_less (double_div (total_seconds delta) (60, 0)) w)))
       | _ \<Rightarrow> False))"

definition json_str :: "json \<Rightarrow> string option" where
  "json_str v = (case v of JStr s \<Rightarrow> Some s | _ \<Rightarrow> None)"

definition check_and_update :: "pyenv \<Rightarrow> string \<Rightarrow> int \<Rightarrow> world \<Rightarrow> (exn + decision) \<times> world" where
  "check_and_update E key window w =
     (case read_json (supp_file w) of
        Inl ex \<Rightarrow> (Inl ex, w)
      | Inr (JObj doc) \<Rightarrow>
          (case now_utc E w of
             (now, w1) \<Rightarrow>
               (case py_or (dict_get_default doc ''state'' (JObj [])) (JObj []) of
                  JObj state \<Rightarrow>
                    if within_window E now (dict_get state key) window
                    then (Inr \<lparr>suppressed = True, suppression_key = key, window_minutes = window,
                               last_emitted_at = json_str (dict_get state key),
                               reason = ''WITHIN_WINDOW''\<rparr>, w1)
                    else (Inr \<lparr>suppressed = False, suppression_key = key, window_minutes = window,
                               last_emitted_at = Some (isoformat now),
                               reason = ''EMIT_ALLOWED''\<rparr>,
                          w1\<lparr>supp_file :=
                               Json (sort_keys (JObj (dict_set doc ''state''
                                 (JObj (dict_set state key (JStr (isoformat now)))))))\<rparr>)
                | _ \<Rightarrow> (Inl AttributeError, w1)))
      | Inr _ \<Rightarrow> (Inl AttributeError, w))"

section \<open>The timeout sweep (app.py)\<close>

subsection \<open>The sweep configuration\<close>

record sweep_cfg =
  rule_id :: string
  rule_version :: string
  threshold_min :: int
  pair_type :: string
  risk_code :: "string option"
  severity :: "string option"
  recommended_action :: "string option"
  consumers :: "string list"
  suppression_window :: int

text \<open>\<^verbatim>\<open>load_json_obj\<close>.\<close>

definition load_json_obj :: "content \<Rightarrow> exn + (string \<times> json) list" where
  "load_json_obj c =
     (case c of
        Absent \<Rightarrow> Inl FileNotFoundError
      | Blank \<Rightarrow> Inl JSONDecodeError
      | NotJson \<Rightarrow> Inl JSONDecodeError
      | Json (JObj d) \<Rightarrow> Inr d
      | Json _ \<Rightarrow> Inl ValueError)"

text \<open>\<^verbatim>\<open>int(v)\<close>.\<close>

definition py_int :: "pyenv \<Rightarrow> json \<Rightarrow> exn + int" where
  "py_int E v =
     (case v of
        JInt i \<Rightarrow> Inr i
      | JBool b \<Rightarrow> Inr (if b then 1 else 0)
      | JStr s \<Rightarrow> (case int_of_str E s of None \<Rightarrow> Inl ValueError | Some i \<Rightarrow> Inr i)
      | _ \<Rightarrow> Inl TypeError)"

text \<open>\<^verbatim>\<open>cfg.get(k, {}) or {}\<close>, then used through \<^verbatim>\<open>.get\<close>.\<close>

definition sub_dict :: "(string \<times> json) list \<Rightarrow> string \<Rightarrow> exn + (string \<times> json) list" where
  "sub_dict cfg k =
     (case py_or (dict_get_default cfg k (JObj [])) (JObj []) of
        JObj d \<Rightarrow> Inr d
      | _ \<Rightarrow> Inl AttributeError)"

text \<open>Lines 155 to 171 of app.py, in their order; an exception here leaves \<^verbatim>\<open>_sweep_timeouts\<close>.\<close>

definition parse_cfg :: "pyenv \<Rightarrow> (string \<times> json) list \<Rightarrow> exn + sweep_cfg" where
  "parse_cfg E cfg =
     (case py_int E (dict_get_default cfg ''threshold_minutes'' (JInt 60)) of
        Inl ex \<Rightarrow> Inl ex
      | Inr thr \<Rightarrow>
          (case sub_dict cfg ''output'' of
             Inl ex \<Rightarrow> Inl ex
           | Inr out \<Rightarrow>
               (case sub_dict cfg ''routing'' of
                  Inl ex \<Rightarrow> Inl ex
                | Inr routing_cfg \<Rightarrow>
                    (case sub_dict cfg ''suppression'' of
                       Inl ex \<Rightarrow> Inl ex
                     | Inr suppression_cfg \<Rightarrow>
                         (case py_int E (dict_get_default suppression_cfg ''window_minutes'' (JInt thr)) of
                            Inl ex \<Rightarrow> Inl ex
                          | Inr win \<Rightarrow>
                              Inr \<lparr>rule_id = safe_str_or E (dict_get cfg ''rule_id'') ''R-002-STEP_TIMEOUT'',
                                   rule_version = safe_str_or E (dict_get cfg ''rule_version'') ''0.1'',
                                   threshold_min = thr,
                                   pair_type = safe_str_or E (dict_get cfg ''pair_with_event_type'') ''STEP_COMPLETED'',
                                   risk_code = safe_str E (dict_get out ''risk_code''),
                                   severity = safe_str E (dict_get out ''severity''),
                                   recommended_action = safe_str E (dict_get out ''recommended_action''),
                                   consumers =
                                     (case dict_get_default routing_cfg ''consumers'' (JArr []) of
                                        JArr xs \<Rightarrow> map (py_str E) xs
                                      | _ \<Rightarrow> []),
                                   suppression_window = win\<rparr>)))))"

subsection \<open>Detecting a timeout\<close>

text \<open>\<^verbatim>\<open>_parse_iso\<close> of app.py.\<close>

definition app_parse_iso :: "pyenv \<Rightarrow> string \<Rightarrow> datetime option" where
  "app_parse_iso E ts = fromisoformat E (if endswith ts ''Z'' then butlast ts @ ''+00:00'' else ts)"

text \<open>\<^verbatim>\<open>_safe_str(e.get("event_timestamp")) or _now_utc_iso()\<close>.\<close>

definition timestamp_or_now :: "pyenv \<Rightarrow> (string \<times> json) list \<Rightarrow> world \<Rightarrow> string \<times> world" where
  "timestamp_or_now E r w =
     (case safe_str E (dict_get r ''event_timestamp'') of
        Some s \<Rightarrow> (s, w)
      | None \<Rightarrow> (case now_utc E w of (n, w') \<Rightarrow> (isoformat n, w')))"

text \<open>\<^verbatim>\<open>completions.get(bt, [])\<close> and \<^verbatim>\<open>completions.setdefault(bt, []).append(ts)\<close>.\<close>

definition completions_of :: "(string \<times> datetime list) list \<Rightarrow> string \<Rightarrow> datetime list" where
  "completions_of cmpl bt = (case map_of cmpl bt of None \<Rightarrow> [] | Some ts \<Rightarrow> ts)"

definition add_completion ::
  "(string \<times> datetime list) list \<Rightarrow> string \<Rightarrow> datetime \<Rightarrow> (string \<times> datetime list) list" where
  "add_completion cmpl bt ts = AList.update bt (completions_of cmpl bt @ [ts]) cmpl"

text \<open>The first inner loop: the index of the completions of a group, by batch token.\<close>

fun index_completions ::
  "pyenv \<Rightarrow> string \<Rightarrow> json list \<Rightarrow> (string \<times> datetime list) list \<Rightarrow> world
     \<Rightarrow> (string \<times> datetime list) list \<times> world" where
  "index_completions E ptype [] cmpl w = (cmpl, w)"
| "index_completions E ptype (e # es) cmpl w =
     (case e of
        JObj r \<Rightarrow>
          if safe_str E (dict_get r ''event_type'') \<noteq> Some ptype
          then index_completions E ptype es cmpl w
          else
            (case safe_str E (dict_get r ''batch_token'') of
               None \<Rightarrow> index_completions E ptype es cmpl w
             | Some bt \<Rightarrow>
                 (case timestamp_or_now E r w of
                    (s, w1) \<Rightarrow>
                      (case app_parse_iso E s of
                         None \<Rightarrow> index_completions E ptype es cmpl w1
                       | Some ts \<Rightarrow> index_completions E ptype es (add_completion cmpl bt ts) w1)))
      | _ \<Rightarrow> index_completions E ptype es cmpl w)"

text \<open>\<^verbatim>\<open>opened_at + timedelta(minutes=threshold_min)\<close>.\<close>

definition deadline_of :: "datetime \<Rightarrow> int \<Rightarrow> exn + datetime" where
  "deadline_of opened_at thr =
     (case timedelta_minutes thr of
        Inl ex \<Rightarrow> Inl ex
      | Inr td \<Rightarrow> dt_add opened_at td)"

text \<open>
  The search for a completion with \<^verbatim>\<open>opened_at <= cts <= deadline\<close>, stopping at the first;
  a comparison between a naive and an aware datetime raises.
\<close>

fun completed_within :: "datetime \<Rightarrow> datetime \<Rightarrow> datetime list \<Rightarrow> exn + bool" where
  "completed_within opened_at deadline [] = Inr False"
| "completed_within opened_at deadline (cts # rest) =
     (case dt_le opened_at cts of
        Inl ex \<Rightarrow> Inl ex
      | Inr after_open \<Rightarrow>
          if \<not> after_open then completed_within opened_at deadline rest
          else
            (case dt_le cts deadline of
               Inl ex \<Rightarrow> Inl ex
             | Inr in_time \<Rightarrow>
                 if in_time then Inr True else completed_within opened_at deadline rest))"

text \<open>The instant of a datetime, in microseconds since 0001-01-01T00:00:00Z.\<close>

definition utc_instant :: "datetime \<Rightarrow> int" where
  "utc_instant d = (case utcoffset d of None \<Rightarrow> wall d | Some off \<Rightarrow> wall d - off)"

definition sweep_defaults :: "(string \<times> json) list" where
  "sweep_defaults =
     [(''source_system'', JStr ''DBR''),
      (''site'', JStr ''UNKNOWN_SITE''),
      (''area'', JStr ''UNKNOWN_AREA''),
      (''product_id'', JStr ''UNKNOWN_PRODUCT''),
      (''dbr_template_id'', JStr ''UNKNOWN_TEMPLATE''),
      (''dbr_template_version'', JStr ''0.1''),
      (''page_number'', JInt 1),
      (''step_code'', JStr ''UNKNOWN_STEP''),
      (''section_code'', JStr ''UNKNOWN_SECTION''),
      (''operator_role'', JStr ''OPERATOR''),
      (''operator_token'', JStr ''UNKNOWN_OPERATOR'')]"

text \<open>
  The synthetic event of lines 242 to 257: a copy of the open record with its event id (or
  the one derived from the batch token and the whole seconds of the open timestamp since
  1970), the deadline as its timestamp, the defaults for the fields the record lacks, and
  the receipt time.
\<close>

definition synthetic_event ::
  "pyenv \<Rightarrow> (string \<times> json) list \<Rightarrow> string \<Rightarrow> datetime \<Rightarrow> datetime \<Rightarrow> string \<Rightarrow> (string \<times> json) list" where
  "synthetic_event E r bt opened_at deadline received =
     dict_set
       (fold (\<lambda>(k, v) d. dict_setdefault d k v) sweep_defaults
          (dict_set
             (dict_set r ''event_id''
                (JStr (safe_str_or E (dict_get r ''event_id'')
                         (''SWEEP-'' @ bt @ ''-'' @ int_str (int_timestamp (utc_instant opened_at))))))
             ''event_timestamp'' (JStr (isoformat deadline))))
       ''received_at'' (JStr received)"

text \<open>
  Lines 214 to 257, the first half of the body of the second inner loop: \<open>Inr None\<close> is a
  \<^verbatim>\<open>continue\<close>, \<open>Inr (Some ev)\<close> the synthetic event of an unresolved overdue open, and
  \<open>Inl ex\<close> an exception that nothing in \<^verbatim>\<open>_sweep_timeouts\<close> catches.
\<close>

definition timeout_candidate ::
  "pyenv \<Rightarrow> sweep_cfg \<Rightarrow> datetime \<Rightarrow> (string \<times> datetime list) list \<Rightarrow> json \<Rightarrow> world
     \<Rightarrow> (exn + (string \<times> json) list option) \<times> world" where
  "timeout_candidate E cfg now cmpl e w =
     (case e of
        JObj r \<Rightarrow>
          if safe_str E (dict_get r ''event_type'') \<noteq> Some ''STEP_OPENED'' then (Inr None, w)
          else
            (case safe_str E (dict_get r ''batch_token'') of
               None \<Rightarrow> (Inr None, w)
             | Some bt \<Rightarrow>
                 (case timestamp_or_now E r w of
                    (s, w1) \<Rightarrow>
                      (case app_parse_iso E s of
                         None \<Rightarrow> (Inr None, w1)
                       | Some opened_at \<Rightarrow>
                           (case deadline_of opened_at (threshold_min cfg) of
                              Inl ex \<Rightarrow> (Inl ex, w1)
                            | Inr deadline \<Rightarrow>
                                (case dt_le deadline now of
                                   Inl ex \<Rightarrow> (Inl ex, w1)
                                 | Inr overdue \<Rightarrow>
                                     if \<not> overdue then (Inr None, w1)
                                     else
                                       (case completed_within opened_at deadline (completions_of cmpl bt) of
                                          Inl ex \<Rightarrow> (Inl ex, w1)
                                        | Inr ok \<Rightarrow>
                                            if ok then (Inr None, w1)
                                            else
                                              (case now_utc E w1 of
                                                 (n, w2) \<Rightarrow>
                                                   (Inr (Some (synthetic_event E r bt opened_at deadline
                                                                 (isoformat n))), w2))))))))
      | _ \<Rightarrow> (Inr None, w))"

subsection \<open>Emitting the alert\<close>

definition log_audit :: "audit_rec \<Rightarrow> world \<Rightarrow> world" where
  "log_audit r w = w\<lparr>audit_log := audit_log w @ [r]\<rparr>"

definition opt_json :: "string option \<Rightarrow> json" where
  "opt_json v = (case v of None \<Rightarrow> JNull | Some s \<Rightarrow> JStr s)"

text \<open>\<^verbatim>\<open>_suppression_key\<close>.\<close>

definition suppression_key_of :: "pyenv \<Rightarrow> (string \<times> json) list \<Rightarrow> string \<Rightarrow> string" where
  "suppression_key_of E ev rid =
     join ''|''
       [safe_str_or E (JStr rid) [],
        safe_str_or E (dict_get ev ''site'') [],
        safe_str_or E (dict_get ev ''area'') [],
        safe_str_or E (dict_get ev ''product_id'') [],
        safe_str_or E (dict_get ev ''dbr_template_id'') [],
        safe_str_or E (dict_get ev ''dbr_template_version'') [],
        safe_str_or E (dict_get ev ''step_code'') [],
        safe_str_or E (dict_get ev ''section_code'') [],
        safe_str_or E (dict_get ev ''batch_token'') []]"

text \<open>
  \<^verbatim>\<open>AlertBuilder.build_alert\<close> of \<^verbatim>\<open>engine/alert_builder.py\<close>, with the rule data of the sweep
  configuration as its match result.
\<close>

definition alert_optional_keys :: "string list" where
  "alert_optional_keys =
     [''suite'', ''line'', ''page_number'', ''batch_token'', ''operator_role'', ''operator_token'']"

definition build_alert ::
  "pyenv \<Rightarrow> (string \<times> json) list \<Rightarrow> sweep_cfg \<Rightarrow> world \<Rightarrow> (string \<times> json) list \<times> world" where
  "build_alert E ev cfg w =
     (case now_utc E (w\<lparr>uuids_drawn := Suc (uuids_drawn w)\<rparr>) of
        (n, w1) \<Rightarrow>
          let event_id = py_str E (dict_get_default ev ''event_id'' (JStr []));
              alert_id = ''ALT-'' @ take 24 (uuid4_hex E (uuids_drawn w));
              base =
                [(''alert_id'', JStr alert_id),
                 (''created_at'', JStr (isoformat n)),
                 (''status'', JStr ''NEW''),
                 (''severity'', opt_json (severity cfg)),
                 (''risk_code'', opt_json (risk_code cfg)),
                 (''source_system'', dict_get ev ''source_system''),
                 (''site'', dict_get ev ''site''),
                 (''area'', dict_get ev ''area''),
                 (''product_id'', dict_get ev ''product_id''),
                 (''dbr_template_id'', dict_get ev ''dbr_template_id''),
                 (''dbr_template_version'', dict_get ev ''dbr_template_version''),
                 (''step_code'', dict_get ev ''step_code''),
                 (''section_code'', dict_get ev ''section_code''),
                 (''rule_id'', JStr (rule_id cfg)),
                 (''rule_version'', JStr (rule_version cfg))];
              with_optional =
                fold (\<lambda>k a. if dict_has ev k \<and> dict_get ev k \<noteq> JNull
                             then dict_set a k (dict_get ev k) else a)
                  alert_optional_keys base;
              with_refs =
                (if event_id \<noteq> [] then dict_set with_optional ''event_refs'' (JArr [JStr event_id])
                 else with_optional);
              alert =
                (case recommended_action cfg of
                   None \<Rightarrow> with_refs
                 | Some a \<Rightarrow> dict_set with_refs ''recommended_action'' (JStr a))
          in (alert,
              log_audit (AlertBuilt (if event_id = [] then None else Some event_id) alert_id
                           (rule_id cfg) (risk_code cfg) (severity cfg)) w1))"

text \<open>
  Lines 279 to 330, the end of the loop body, once routing has passed: suppression,
  assembly, validation and the append to the alert sink. \<open>Inr True\<close> is an emitted alert,
  \<open>Inr False\<close> a \<^verbatim>\<open>continue\<close>; an exception of \<^verbatim>\<open>check_and_update\<close> is not caught.
\<close>

definition emit_routed ::
  "pyenv \<Rightarrow> sweep_cfg \<Rightarrow> (string \<times> json) list \<Rightarrow> world \<Rightarrow> (exn + bool) \<times> world" where
  "emit_routed E cfg ev w =
     (case check_and_update E (suppression_key_of E ev (rule_id cfg)) (suppression_window cfg) w of
        (Inl ex, w2) \<Rightarrow> (Inl ex, w2)
      | (Inr d, w2) \<Rightarrow>
          if suppressed d
          then (Inr False,
                log_audit (AlertSuppressed (safe_str E (dict_get ev ''event_id'')) (rule_id cfg)
                             (suppression_key d) (window_minutes d) (last_emitted_at d)) w2)
          else
            (case build_alert E ev cfg
                    (log_audit (CorrelationHit (safe_str E (dict_get ev ''event_id'')) (rule_id cfg)
                                  [safe_str_or E (dict_get ev ''event_id'') ''UNKNOWN'']
                                  (threshold_min cfg)) w2) of
               (alert, w3) \<Rightarrow>
                 if \<not> schema_ok E (JObj alert)
                 then (Inr False,
                       log_audit (InternalError ''ALERT_SCHEMA_VALIDATE'' ''ALERT_SCHEMA_INVALID''
                                    (safe_str E (dict_get ev ''event_id'')) (Some (rule_id cfg))
                                    (safe_str E (dict_get alert ''alert_id''))) w3)
                 else (Inr True,
                       log_audit (AlertPersisted
                                    (if py_str E (dict_get_default alert ''alert_id'' (JStr [])) = []
                                     then None
                                     else Some (py_str E (dict_get_default alert ''alert_id'' (JStr [])))))
                         (w3\<lparr>alerts_file := alerts_file w3 @ [sort_keys (JObj alert)]\<rparr>))))"

text \<open>
  Lines 259 to 277, the routing step in front of it: a consumer outside the allow-list is
  logged and ends this candidate only.
\<close>

definition emit_alert ::
  "pyenv \<Rightarrow> routing_policy \<Rightarrow> sweep_cfg \<Rightarrow> (string \<times> json) list \<Rightarrow> world \<Rightarrow> (exn + bool) \<times> world" where
  "emit_alert E pol cfg ev w =
     (case normalize pol (Some (consumers cfg)) of
        Inl ex \<Rightarrow>
          (Inr False,
           log_audit (InternalError ''ROUTING_POLICY'' ''ROUTING_NOT_ALLOWED''
                        (safe_str E (dict_get ev ''event_id'')) (Some (rule_id cfg)) None) w)
      | Inr consumers_norm \<Rightarrow>
          emit_routed E cfg ev
            (log_audit (RoutingApplied (safe_str E (dict_get ev ''event_id'')) (rule_id cfg)
                          consumers_norm (rp_version pol)) w))"

subsection \<open>The loops and the whole sweep\<close>

definition process_opening ::
  "pyenv \<Rightarrow> routing_policy \<Rightarrow> sweep_cfg \<Rightarrow> datetime \<Rightarrow> (string \<times> datetime list) list \<Rightarrow> json
     \<Rightarrow> nat \<Rightarrow> world \<Rightarrow> (exn + nat) \<times> world" where
  "process_opening E pol cfg now cmpl e emitted w =
     (case timeout_candidate E cfg now cmpl e w of
        (Inl ex, w1) \<Rightarrow> (Inl ex, w1)
      | (Inr None, w1) \<Rightarrow> (Inr emitted, w1)
      | (Inr (Some ev), w1) \<Rightarrow>
          (case emit_alert E pol cfg ev w1 of
             (Inl ex, w2) \<Rightarrow> (Inl ex, w2)
           | (Inr b, w2) \<Rightarrow> (Inr (if b then Suc emitted else emitted), w2)))"

fun sweep_openings ::
  "pyenv \<Rightarrow> routing_policy \<Rightarrow> sweep_cfg \<Rightarrow> datetime \<Rightarrow> (string \<times> datetime list) list \<Rightarrow> json list
     \<Rightarrow> nat \<Rightarrow> world \<Rightarrow> (exn + nat) \<times> world" where
  "sweep_openings E pol cfg now cmpl [] emitted w = (Inr emitted, w)"
| "sweep_openings E pol cfg now cmpl (e # es) emitted w =
     (case process_opening E pol cfg now cmpl e emitted w of
        (Inl ex, w1) \<Rightarrow> (Inl ex, w1)
      | (Inr n, w1) \<Rightarrow> sweep_openings E pol cfg now cmpl es n w1)"

fun sweep_groups ::
  "pyenv \<Rightarrow> routing_policy \<Rightarrow> sweep_cfg \<Rightarrow> datetime \<Rightarrow> (string \<times> json) list
     \<Rightarrow> nat \<Rightarrow> world \<Rightarrow> (exn + nat) \<times> world" where
  "sweep_groups E pol cfg now [] emitted w = (Inr emitted, w)"
| "sweep_groups E pol cfg now ((gk, events) # rest) emitted w =
     (case events of
        JArr es \<Rightarrow>
          (case index_completions E (pair_type cfg) es [] w of
             (cmpl, w1) \<Rightarrow>
               (case sweep_openings E pol cfg now cmpl es emitted w1 of
                  (Inl ex, w2) \<Rightarrow> (Inl ex, w2)
                | (Inr n, w2) \<Rightarrow> sweep_groups E pol cfg now rest n w2))
      | _ \<Rightarrow> sweep_groups E pol cfg now rest emitted w)"

text \<open>\<^verbatim>\<open>state.get("groups", {}) if isinstance(state, dict) else {}\<close>.\<close>

definition state_groups :: "json \<Rightarrow> json" where
  "state_groups state =
     (case state of
        JObj s \<Rightarrow> dict_get_default s ''groups'' (JObj [])
      | _ \<Rightarrow> JObj [])"

text \<open>
  \<^verbatim>\<open>_sweep_timeouts\<close>, given the content of the configuration file: \<open>Inr rc\<close> is its return
  code, \<open>Inl ex\<close> an exception that leaves it. Of the lines it prints, the text of the
  exception after \<^verbatim>\<open>SWEEP config load failed\<close> and the check mark of the final line are
  left out.
\<close>

definition sweep_timeouts ::
  "pyenv \<Rightarrow> routing_policy \<Rightarrow> content \<Rightarrow> world \<Rightarrow> (exn + int) \<times> world" where
  "sweep_timeouts E pol cfg_file w =
     (case load_json_obj cfg_file of
        Inl ex \<Rightarrow>
          (Inr 2,
           (log_audit (InternalError ''SWEEP'' ''SWEEP_CONFIG_LOAD_FAILED'' None None None) w)
             \<lparr>stderr := stderr w @ [''SWEEP config load failed'']\<rparr>)
      | Inr cfgd \<Rightarrow>
          if \<not> truthy (dict_get_default cfgd ''enabled'' (JBool True))
          then (Inr 0, w\<lparr>stdout := stdout w @ [''SWEEP disabled by config.'']\<rparr>)
          else
            (case parse_cfg E cfgd of
               Inl ex \<Rightarrow> (Inl ex, w)
             | Inr cfg \<Rightarrow>
                 (case read_json (corr_file w) of
                    Inl ex \<Rightarrow>
                      (Inr 2,
                       (log_audit (InternalError ''SWEEP'' ''CORRELATION_STATE_READ_FAILED'' None None None) w)
                         \<lparr>stderr := stderr w @ [''Correlation state unreadable.'']\<rparr>)
                  | Inr state \<Rightarrow>
                      (case state_groups state of
                         JObj groups \<Rightarrow>
                           (case now_utc E w of
                              (now, w1) \<Rightarrow>
                                (case sweep_groups E pol cfg now groups 0 w1 of
                                   (Inl ex, w2) \<Rightarrow> (Inl ex, w2)
                                 | (Inr emitted, w2) \<Rightarrow>
                                     (Inr 0,
                                      w2\<lparr>stdout := stdout w2 @
                                            [''SWEEP COMPLETE emitted='' @ int_str (int emitted)]\<rparr>)))
                       | _ \<Rightarrow>
                           (Inr 2, w\<lparr>stderr := stderr w @ [''Correlation state malformed.'']\<rparr>)))))"

subsection \<open>Notions of the specification about the sweep\<close>

text \<open>
  A record \<open>e\<close> carrying the event type \<open>ty\<close>, the non-empty batch token \<open>bt\<close> and a
  timestamp that parses to \<open>t\<close>: an "opened" record when \<open>ty\<close> is \<^verbatim>\<open>STEP_OPENED\<close>, a
  completion when \<open>ty\<close> is the configured pair event type.
\<close>

definition lifecycle_record :: "pyenv \<Rightarrow> string \<Rightarrow> string \<Rightarrow> datetime \<Rightarrow> json \<Rightarrow> bool" where
  "lifecycle_record E ty bt t e =
     (case e of
        JObj r \<Rightarrow>
          safe_str E (dict_get r ''event_type'') = Some ty \<and>
          safe_str E (dict_get r ''batch_token'') = Some bt \<and>
          (case safe_str E (dict_get r ''event_timestamp'') of
             None \<Rightarrow> False
           | Some s \<Rightarrow> app_parse_iso E s = Some t)
      | _ \<Rightarrow> False)"

subsection \<open>Notions of the specification about the store\<close>

text \<open>
  A corrupted or missing state file, in the specification's words: the file is missing or
  empty, is not JSON, its root is not an object, or the \<^verbatim>\<open>groups\<close> key is missing or is
  not an object.
\<close>

definition corrupt_file :: "content \<Rightarrow> bool" where
  "corrupt_file c =
     (case c of
        Absent \<Rightarrow> True
      | Blank \<Rightarrow> True
      | NotJson \<Rightarrow> True
      | Json (JObj doc) \<Rightarrow> (case map_of doc ''groups'' of Some (JObj g) \<Rightarrow> False | _ \<Rightarrow> True)
      | Json _ \<Rightarrow> True)"

text \<open>The world once the state file has been replaced by the fresh empty document.\<close>

definition fresh :: "world \<Rightarrow> world" where
  "fresh w = w\<lparr>corr_file := Json (JObj [(''groups'', JObj []), (''version'', JStr ''0.1'')])\<rparr>"

text \<open>
  The filter of \<^verbatim>\<open>prune\<close> on one group, and what holds of a group it has written.
\<close>

definition kept_records :: "pyenv \<Rightarrow> datetime \<Rightarrow> json \<Rightarrow> json option" where
  "kept_records E cutoff v =
     (case v of
        JArr es \<Rightarrow>
          if filter (keep_event E cutoff) es = [] then None
          else Some (JArr (filter (keep_event E cutoff) es))
      | _ \<Rightarrow> None)"

definition kept_group :: "pyenv \<Rightarrow> datetime \<Rightarrow> string \<times> json \<Rightarrow> bool" where
  "kept_group E cutoff p =
     (case snd p of
        JArr recs \<Rightarrow> recs \<noteq> [] \<and> (\<forall>r \<in> set recs. keep_event E cutoff r)
      | _ \<Rightarrow> False)"

text \<open>
  The specification's bound: a record is recent enough when its timestamp parses to an
  instant (a datetime with a UTC offset) at or after \<open>bound\<close>, in microseconds since
  0001-01-01T00:00:00Z. What the specification leaves of a group is the list of its
  records that are recent enough, in their order, and no group at all when there is none
  (or when the group's value is not a list).
\<close>

definition recent_enough :: "pyenv \<Rightarrow> int \<Rightarrow> json \<Rightarrow> bool" where
  "recent_enough E bound r =
     (case record_timestamp E r of
        None \<Rightarrow> False
      | Some ts \<Rightarrow> (case utcoffset ts of None \<Rightarrow> False | Some off \<Rightarrow> bound \<le> wall ts - off))"

definition recent_records :: "pyenv \<Rightarrow> int \<Rightarrow> json \<Rightarrow> json option" where
  "recent_records E bound v =
     (case v of
        JArr es \<Rightarrow>
          if filter (recent_enough E bound) es = [] then None
          else Some (JArr (filter (recent_enough E bound) es))
      | _ \<Rightarrow> None)"

text \<open>
  The max-ages \<open>m\<close> (in minutes) that Python's types can take back from the clock reading
  \<open>t\<close>: \<^verbatim>\<open>timedelta(minutes=m)\<close> has at most 999999999 days, and \<open>t\<close> minus \<open>m\<close> minutes
  lies between the years 1 and 9999.
\<close>

definition representable_cutoff :: "int \<Rightarrow> int \<Rightarrow> bool" where
  "representable_cutoff t m \<longleftrightarrow>
     - 999999999 \<le> m div 1440 \<and> m div 1440 \<le> 999999999 \<and>
     0 \<le> t - m * 60000000 \<and> t - m * 60000000 \<le> max_wall"

text \<open>
  Two JSON values are the same document when they agree up to the order of the keys of
  their dicts (Python's equality of dicts): lists agree element by element, in order, and
  dicts have the same keys with the same values.
\<close>

function same_json :: "json \<Rightarrow> json \<Rightarrow> bool" where
  "same_json (JArr xs) b = (case b of JArr ys \<Rightarrow> list_all2 same_json xs ys | _ \<Rightarrow> False)"
| "same_json (JObj kvs) b =
     (case b of
        JObj kvs' \<Rightarrow>
          set (map fst kvs) = set (map fst kvs') \<and>
          (\<forall>k \<in> set (map fst kvs).
             case map_of kvs k of
               None \<Rightarrow> False
             | Some v \<Rightarrow> (case map_of kvs' k of None \<Rightarrow> False | Some v' \<Rightarrow> same_json v v'))
      | _ \<Rightarrow> False)"
| "same_json JNull b = (b = JNull)"
| "same_json (JBool x) b = (b = JBool x)"
| "same_json (JInt i) b = (b = JInt i)"
| "same_json (JStr s) b = (b = JStr s)"
  by pat_completeness auto
termination
proof -
  have sz: "map_of kvs k = Some v \<Longrightarrow> size v < Suc (size_list (size_prod (\<lambda>x. 0) size) kvs)"
    for kvs :: "(string \<times> json) list" and k v
    by (induction kvs) (auto split: if_splits)
  show ?thesis
    by (relation "measure (\<lambda>(a, b). size a)")
      (auto simp: less_Suc_eq_le size_list_estimation' dest: sz)
qed

declare same_json.simps [simp del]

section \<open>A concrete environment\<close>

text \<open>
  An instance of the library functions, for evaluating the program on concrete inputs.
  \<open>fromisoformat_core\<close> is \<^verbatim>\<open>datetime.fromisoformat\<close> on the strings
  \<^verbatim>\<open>YYYY-MM-DD?HH:MM:SS[.fff[fff]][+HH:MM]\<close> (any separator character, either sign), which every
  CPython from 3.7 on parses the same way; it is applied to such strings and to text that
  no version accepts.
\<close>

definition digit_val :: "char \<Rightarrow> int option" where
  "digit_val c =
     map_of [(CHR ''0'', 0), (CHR ''1'', 1), (CHR ''2'', 2), (CHR ''3'', 3), (CHR ''4'', 4),
             (CHR ''5'', 5), (CHR ''6'', 6), (CHR ''7'', 7), (CHR ''8'', 8), (CHR ''9'', 9)] c"

fun digits_val :: "string \<Rightarrow> int \<Rightarrow> int option" where
  "digits_val [] acc = Some acc"
| "digits_val (c # cs) acc =
     (case digit_val c of None \<Rightarrow> None | Some d \<Rightarrow> digits_val cs (10 * acc + d))"

definition field :: "nat \<Rightarrow> string \<Rightarrow> int option" where
  "field n s = (if length s = n then digits_val s 0 else None)"

definition days_in_month :: "int \<Rightarrow> int \<Rightarrow> int" where
  "days_in_month y m =
     (if m = 2 then (if y mod 4 = 0 \<and> (y mod 100 \<noteq> 0 \<or> y mod 400 = 0) then 29 else 28)
      else if m = 4 \<or> m = 6 \<or> m = 9 \<or> m = 11 then 30 else 31)"

definition check_date :: "int \<Rightarrow> int \<Rightarrow> int \<Rightarrow> int option" where
  "check_date y m d =
     (if 1 \<le> y \<and> 1 \<le> m \<and> m \<le> 12 \<and> 1 \<le> d \<and> d \<le> days_in_month y m
      then Some (days_from_civil y m d) else None)"

definition parse_date :: "string \<Rightarrow> int option" where
  "parse_date s =
     (if length s = 10 \<and> s ! 4 = CHR ''-'' \<and> s ! 7 = CHR ''-''
      then (case field 4 (take 4 s) of None \<Rightarrow> None | Some y \<Rightarrow>
             (case field 2 (take 2 (drop 5 s)) of None \<Rightarrow> None | Some m \<Rightarrow>
               (case field 2 (drop 8 s) of None \<Rightarrow> None | Some d \<Rightarrow> check_date y m d)))
      else None)"

definition check_hm :: "int \<Rightarrow> int \<Rightarrow> int \<Rightarrow> int option" where
  "check_hm h m s =
     (if h < 24 \<and> m < 60 \<and> s < 60 then Some ((h * 3600 + m * 60 + s) * 1000000) else None)"

definition parse_hms :: "string \<Rightarrow> int option" where
  "parse_hms s =
     (if length s = 8 \<and> s ! 2 = CHR '':'' \<and> s ! 5 = CHR '':''
      then (case field 2 (take 2 s) of None \<Rightarrow> None | Some h \<Rightarrow>
             (case field 2 (take 2 (drop 3 s)) of None \<Rightarrow> None | Some m \<Rightarrow>
               (case field 2 (drop 6 s) of None \<Rightarrow> None | Some sec \<Rightarrow> check_hm h m sec)))
      else None)"

definition parse_frac :: "string \<Rightarrow> int option" where
  "parse_frac s =
     (case s of
        [] \<Rightarrow> Some 0
      | c # ds \<Rightarrow>
          if c \<noteq> CHR ''.'' then None
          else if length ds = 6 then field 6 ds
          else if length ds = 3 then map_option (\<lambda>n. n * 1000) (field 3 ds)
          else None)"

definition parse_time :: "string \<Rightarrow> int option" where
  "parse_time s =
     (case parse_hms (take 8 s) of None \<Rightarrow> None | Some t \<Rightarrow>
        (case parse_frac (drop 8 s) of None \<Rightarrow> None | Some f \<Rightarrow> Some (t + f)))"

definition parse_offset :: "string \<Rightarrow> int option option" where
  "parse_offset s =
     (case s of
        [] \<Rightarrow> Some None
      | c # hm \<Rightarrow>
          if length hm = 5 \<and> hm ! 2 = CHR '':''
          then (case field 2 (take 2 hm) of None \<Rightarrow> None | Some h \<Rightarrow>
                 (case field 2 (drop 3 hm) of None \<Rightarrow> None | Some m \<Rightarrow>
                   if h < 24 \<and> m < 60
                   then Some (Some ((if c = CHR ''-'' then - 1 else 1) * (h * 3600 + m * 60) * 1000000))
                   else None))
          else None)"

definition is_sign :: "char \<Rightarrow> bool" where
  "is_sign c = (c = CHR ''+'' \<or> c = CHR ''-'')"

definition fromisoformat_core :: "string \<Rightarrow> datetime option" where
  "fromisoformat_core s =
     (if length s < 19 then None
      else (case parse_date (take 10 s) of None \<Rightarrow> None | Some d \<Rightarrow>
             (case parse_time (takeWhile (\<lambda>c. \<not> is_sign c) (drop 11 s)) of None \<Rightarrow> None | Some t \<Rightarrow>
               (case parse_offset (dropWhile (\<lambda>c. \<not> is_sign c) (drop 11 s)) of None \<Rightarrow> None
                | Some off \<Rightarrow> Some \<lparr>wall = d * usec_per_day + t, utcoffset = off\<rparr>))))"

text \<open>\<^verbatim>\<open>int(s)\<close> on an optionally signed run of ASCII digits, with surrounding white space.\<close>

definition int_of_str_basic :: "string \<Rightarrow> int option" where
  "int_of_str_basic s =
     (case strip s of
        [] \<Rightarrow> None
      | c # cs \<Rightarrow>
          if c = CHR ''-'' then (if cs = [] then None else map_option uminus (digits_val cs 0))
          else if c = CHR ''+'' then (if cs = [] then None else digits_val cs 0)
          else digits_val (c # cs) 0)"

text \<open>\<^verbatim>\<open>repr\<close> of a value whose strings need no escaping.\<close>

definition quote :: "string \<Rightarrow> string" where
  "quote s = [CHR 0x27] @ s @ [CHR 0x27]"

fun repr_basic :: "json \<Rightarrow> string" where
  "repr_basic JNull = ''None''"
| "repr_basic (JBool b) = (if b then ''True'' else ''False'')"
| "repr_basic (JInt i) = int_str i"
| "repr_basic (JStr s) = quote s"
| "repr_basic (JArr xs) = ''['' @ join '', '' (map repr_basic xs) @ '']''"
| "repr_basic (JObj kvs) =
     ''{'' @ join '', '' (map (\<lambda>(k, v). quote k @ '': '' @ repr_basic v) kvs) @ ''}''"

text \<open>A clock that advances by one microsecond at every reading.\<close>

definition ticking_clock :: "int \<Rightarrow> nat \<Rightarrow> int" where
  "ticking_clock t0 n = t0 + int n"

definition std_env :: "(nat \<Rightarrow> int) \<Rightarrow> (json \<Rightarrow> bool) \<Rightarrow> pyenv" where
  "std_env clk schema =
     \<lparr>clock = clk, fromisoformat = fromisoformat_core, py_repr = repr_basic,
      int_of_str = int_of_str_basic, uuid4_hex = (\<lambda>n. zpad 24 n @ ''00000000''), schema_ok = schema\<rparr>"

text \<open>2024-01-01T00:00:00, in microseconds since 0001-01-01T00:00:00.\<close>

definition t_2024 :: int where
  "t_2024 = 63839664000000000"

definition usec_per_hour :: int where
  "usec_per_hour = 3600000000"

text \<open>A fresh installation: the suppression file as its store creates it, nothing logged.\<close>

definition init_world :: "content \<Rightarrow> world" where
  "init_world c =
     \<lparr>ticks = 0, corr_file = c,
      supp_file = Json (JObj [(''state'', JObj []), (''version'', JStr ''0.1'')]),
      alerts_file = [], audit_log = [], uuids_drawn = 0, stderr = [], stdout = []\<rparr>"

text \<open>The state document of the scenario: one open record in one group.\<close>

definition scenario_open :: json where
  "scenario_open =
     JObj [(''event_type'', JStr ''STEP_OPENED''),
           (''event_timestamp'', JStr ''2024-01-01T00:00:00Z''),
           (''batch_token'', JStr ''BT-1'')]"

definition scenario_doc :: json where
  "scenario_doc =
     JObj [(''groups'', JObj [(''S1|A1|P1|T1|STEP1|SEC1'', JArr [scenario_open])]),
           (''version'', JStr ''0.1'')]"

text \<open>
  A state document for pruning at 2024-01-01T00:00:00Z: in group \<open>G1\<close> a record two days
  old, a record twelve hours old, a record whose timestamp is not a timestamp and a record
  exactly one day old; in group \<open>G2\<close> a single record two days old.
\<close>

definition stored_record :: "string \<Rightarrow> string \<Rightarrow> json" where
  "stored_record event_id ts =
     JObj [(''batch_token'', JStr ''BT-1''), (''event_id'', JStr event_id),
           (''event_timestamp'', JStr ts), (''event_type'', JStr ''STEP_OPENED'')]"

definition prune_groups_in :: "(string \<times> json) list" where
  "prune_groups_in =
     [(''G1'', JArr [stored_record ''E-1'' ''2023-12-30T00:00:00Z'',
                     stored_record ''E-2'' ''2023-12-31T12:00:00+00:00'',
                     stored_record ''E-3'' ''not-a-time'',
                     stored_record ''E-5'' ''2023-12-31T00:00:00Z'']),
      (''G2'', JArr [stored_record ''E-4'' ''2023-12-30T00:00:00Z''])]"

definition prune_doc :: json where
  "prune_doc = JObj [(''groups'', JObj prune_groups_in), (''version'', JStr ''0.1'')]"

definition pruned_doc :: json where
  "pruned_doc =
     JObj [(''groups'',
            JObj [(''G1'', JArr [stored_record ''E-2'' ''2023-12-31T12:00:00+00:00'',
                                 stored_record ''E-5'' ''2023-12-31T00:00:00Z''])]),
           (''version'', JStr ''0.1'')]"

text \<open>A routing policy, and the sweep configuration with every option at its default.\<close>

definition demo_policy :: routing_policy where
  "demo_policy = \<lparr>rp_version = ''0.1'', allowed = [''QA_TEAM'', ''OPS_TEAM''], aliases = [(''qa'', ''QA_TEAM'')]\<rparr>"

definition default_cfg :: sweep_cfg where
  "default_cfg =
     \<lparr>rule_id = ''R-002-STEP_TIMEOUT'', rule_version = ''0.1'', threshold_min = 60,
      pair_type = ''STEP_COMPLETED'', risk_code = None, severity = None,
      recommended_action = None, consumers = [], suppression_window = 60\<rparr>"

text \<open>The clock of the examples: every reading is 2024-01-01T00:00:00Z plus a microsecond per reading.\<close>

definition env_2024 :: pyenv where
  "env_2024 = std_env (ticking_clock t_2024) (\<lambda>a. True)"

text \<open>The suppression file after a first alert for the key \<open>K\<close> at the first reading of that clock.\<close>

definition supp_after_first :: content where
  "supp_after_first =
     Json (JObj [(''state'', JObj [(''K'', JStr ''2024-01-01T00:00:00+00:00'')]),
                 (''version'', JStr ''0.1'')])"

definition first_decision :: decision where
  "first_decision =
     \<lparr>suppressed = False, suppression_key = ''K'', window_minutes = 60,
      last_emitted_at = Some ''2024-01-01T00:00:00+00:00'', reason = ''EMIT_ALLOWED''\<rparr>"

definition second_decision :: decision where
  "second_decision =
     \<lparr>suppressed = True, suppression_key = ''K'', window_minutes = 60,
      last_emitted_at = Some ''2024-01-01T00:00:00+00:00'', reason = ''WITHIN_WINDOW''\<rparr>"

text \<open>
  The clock of two sweeps one hour apart: the four readings of the first sweep start at
  2024-01-01T02:00:00Z, those of the second at 2024-01-01T03:00:00Z, a microsecond apart.
\<close>

definition sweep_clock :: "nat \<Rightarrow> int" where
  "sweep_clock n =
     (if n < 4 then t_2024 + 2 * usec_per_hour + int n
      else t_2024 + 3 * usec_per_hour + int (n - 4))"

definition env_sweeps :: pyenv where
  "env_sweeps = std_env sweep_clock (\<lambda>a. True)"

text \<open>The configuration file of the scenario: a threshold of 60 minutes, the rest by default.\<close>

definition scenario_cfg_file :: content where
  "scenario_cfg_file = Json (JObj [(''threshold_minutes'', JInt 60)])"

text \<open>The synthetic alert-input of the scenario, with its receipt time.\<close>

definition scenario_event :: "string \<Rightarrow> (string \<times> json) list" where
  "scenario_event received =
     [(''event_type'', JStr ''STEP_OPENED''),
      (''event_timestamp'', JStr ''2024-01-01T01:00:00+00:00''),
      (''batch_token'', JStr ''BT-1''),
      (''event_id'', JStr ''SWEEP-BT-1-1704067200''),
      (''source_system'', JStr ''DBR''),
      (''site'', JStr ''UNKNOWN_SITE''),
      (''area'', JStr ''UNKNOWN_AREA''),
      (''product_id'', JStr ''UNKNOWN_PRODUCT''),
      (''dbr_template_id'', JStr ''UNKNOWN_TEMPLATE''),
      (''dbr_template_version'', JStr ''0.1''),
      (''page_number'', JInt 1),
      (''step_code'', JStr ''UNKNOWN_STEP''),
      (''section_code'', JStr ''UNKNOWN_SECTION''),
      (''operator_role'', JStr ''OPERATOR''),
      (''operator_token'', JStr ''UNKNOWN_OPERATOR''),
      (''received_at'', JStr received)]"

text \<open>Its suppression key, and the alert built from it.\<close>

definition scenario_key :: string where
  "scenario_key =
     ''R-002-STEP_TIMEOUT|UNKNOWN_SITE|UNKNOWN_AREA|UNKNOWN_PRODUCT|UNKNOWN_TEMPLATE|0.1|UNKNOWN_STEP|UNKNOWN_SECTION|BT-1''"

definition scenario_alert :: "string \<Rightarrow> string \<Rightarrow> (string \<times> json) list" where
  "scenario_alert alert_id created =
     [(''alert_id'', JStr alert_id),
      (''created_at'', JStr created),
      (''status'', JStr ''NEW''),
      (''severity'', JNull),
      (''risk_code'', JNull),
      (''source_system'', JStr ''DBR''),
      (''site'', JStr ''UNKNOWN_SITE''),
      (''area'', JStr ''UNKNOWN_AREA''),
      (''product_id'', JStr ''UNKNOWN_PRODUCT''),
      (''dbr_template_id'', JStr ''UNKNOWN_TEMPLATE''),
      (''dbr_template_version'', JStr ''0.1''),
      (''step_code'', JStr ''UNKNOWN_STEP''),
      (''section_code'', JStr ''UNKNOWN_SECTION''),
      (''rule_id'', JStr ''R-002-STEP_TIMEOUT''),
      (''rule_version'', JStr ''0.1''),
      (''page_number'', JInt 1),
      (''batch_token'', JStr ''BT-1''),
      (''operator_role'', JStr ''OPERATOR''),
      (''operator_token'', JStr ''UNKNOWN_OPERATOR''),
      (''event_refs'', JArr [JStr ''SWEEP-BT-1-1704067200''])]"

text \<open>The audit entries of one emitted alert of the scenario.\<close>

definition scenario_audit :: "string \<Rightarrow> audit_rec list" where
  "scenario_audit alert_id =
     [RoutingApplied (Some ''SWEEP-BT-1-1704067200'') ''R-002-STEP_TIMEOUT'' [] ''0.1'',
      CorrelationHit (Some ''SWEEP-BT-1-1704067200'') ''R-002-STEP_TIMEOUT''
        [''SWEEP-BT-1-1704067200''] 60,
      AlertBuilt (Some ''SWEEP-BT-1-1704067200'') alert_id ''R-002-STEP_TIMEOUT'' None None,
      AlertPersisted (Some alert_id)]"

text \<open>The world after the first sweep of the scenario, and after the second.\<close>

definition world_after_sweep :: world where
  "world_after_sweep =
     \<lparr>ticks = 4, corr_file = Json scenario_doc,
      supp_file =
        Json (JObj [(''state'', JObj [(scenario_key, JStr ''2024-01-01T02:00:00.000002+00:00'')]),
                    (''version'', JStr ''0.1'')]),
      alerts_file =
        [sort_keys (JObj (scenario_alert ''ALT-000000000000000000000000''
                            ''2024-01-01T02:00:00.000003+00:00''))],
      audit_log = scenario_audit ''ALT-000000000000000000000000'',
      uuids_drawn = 1, stderr = [], stdout = [''SWEEP COMPLETE emitted=1'']\<rparr>"


text \<open>A completion record of the scenario's batch token, at a given timestamp.\<close>

definition scenario_completed :: "string \<Rightarrow> json" where
  "scenario_completed ts =
     JObj [(''event_type'', JStr ''STEP_COMPLETED''),
           (''event_timestamp'', JStr ts),
           (''batch_token'', JStr ''BT-1'')]"

text \<open>A suppression file whose entry for the key \<open>K\<close> is not a timestamp.\<close>

definition supp_garbage :: content where
  "supp_garbage =
     Json (JObj [(''state'', JObj [(''K'', JStr ''garbage'')]), (''version'', JStr ''0.1'')])"



definition env_strict :: pyenv where
  "env_strict = std_env sweep_clock (\<lambda>a. False)"




section \<open>Rounding to doubles\<close>

lemma pow_nat_diff:
  "real_of_int (2 ^ nat (a - b)) / real_of_int (2 ^ nat (b - a)) = 2 powi (a - b)"
proof (cases "b \<le> a")
  case True
  then show ?thesis by (simp add: power_int_def)
next
  case False
  then have "nat (a - b) = 0" "nat (- (a - b)) = nat (b - a)" by simp_all
  with False show ?thesis
    by (simp add: power_int_def field_simps)
qed




lemma bitlen_real_bounds:
  assumes "0 < a"
  shows "2 powi (bitlen a - 1) \<le> real_of_int a" and "real_of_int a < 2 powi (bitlen a)"
proof -
  from assms have b: "1 \<le> bitlen a"
    using bitlen_eq_zero_iff [of a] bitlen_nonneg [of a] by linarith
  from bitlen_bounds [OF assms] have "real_of_int (2 ^ nat (bitlen a - 1)) \<le> real_of_int a"
    and "real_of_int a < real_of_int (2 ^ nat (bitlen a))"
    by (simp_all only: of_int_le_iff of_int_less_iff)
  with b show "2 powi (bitlen a - 1) \<le> real_of_int a" and "real_of_int a < 2 powi (bitlen a)"
    by (simp_all add: power_int_def)
qed

lemma floor_log2_bounds:
  assumes "0 < a" and "0 < b"
  shows "2 powi (floor_log2 a b) \<le> real_of_int a / real_of_int b"
    and "real_of_int a / real_of_int b < 2 powi (floor_log2 a b + 1)"
proof -
  let ?l = "bitlen a - bitlen b"
  let ?q = "real_of_int a / real_of_int b"
  have rb: "0 < real_of_int b" using assms by simp
  have lo: "2 powi (?l - 1) < ?q"
  proof -
    have "2 powi (?l - 1) * real_of_int b < 2 powi (?l - 1) * 2 powi (bitlen b)"
      using bitlen_real_bounds(2) [OF assms(2)] by simp
    also have "\<dots> = 2 powi (bitlen a - 1)"
      by (simp add: power_int_add [symmetric])
    also have "\<dots> \<le> real_of_int a"
      by (rule bitlen_real_bounds(1) [OF assms(1)])
    finally show ?thesis
      using rb by (simp add: field_simps)
  qed
  have hi: "?q < 2 powi (?l + 1)"
  proof -
    have "real_of_int a < 2 powi (bitlen a)"
      by (rule bitlen_real_bounds(2) [OF assms(1)])
    also have "\<dots> = 2 powi (?l + 1) * 2 powi (bitlen b - 1)"
      by (simp add: power_int_add [symmetric])
    also have "\<dots> \<le> 2 powi (?l + 1) * real_of_int b"
      using bitlen_real_bounds(1) [OF assms(2)] by simp
    finally show ?thesis
      using rb by (simp add: field_simps)
  qed
  have c: "b * 2 ^ nat ?l \<le> a * 2 ^ nat (bitlen b - bitlen a) \<longleftrightarrow> 2 powi ?l \<le> ?q"
  proof -
    have "b * 2 ^ nat ?l \<le> a * 2 ^ nat (bitlen b - bitlen a) \<longleftrightarrow>
          real_of_int (b * 2 ^ nat ?l) \<le> real_of_int (a * 2 ^ nat (bitlen b - bitlen a))"
      by (simp only: of_int_le_iff)
    also have "\<dots> \<longleftrightarrow> real_of_int (2 ^ nat ?l) / real_of_int (2 ^ nat (bitlen b - bitlen a)) \<le> ?q"
      using rb by (simp add: field_simps)
    finally show ?thesis
      by (simp only: pow_nat_diff)
  qed
  show "2 powi (floor_log2 a b) \<le> ?q"
    using lo c by (auto simp: floor_log2_def)
  show "?q < 2 powi (floor_log2 a b + 1)"
    using hi c by (auto simp: floor_log2_def)
qed

lemma round_half_even_le:
  assumes "0 < b" and "real_of_int a / real_of_int b \<le> real_of_int n"
  shows "round_half_even a b \<le> n"
proof -
  from assms have "real_of_int a \<le> real_of_int (n * b)"
    by (simp add: field_simps)
  then have le: "a \<le> n * b"
    by (simp only: of_int_le_iff)
  have "a div b \<le> (n * b) div b"
    by (rule zdiv_mono1 [OF le assms(1)])
  also have "\<dots> = n"
    using assms(1) by simp
  finally have d: "a div b \<le> n" .
  show ?thesis
  proof (cases "a div b = n")
    case True
    have "a = (a div b) * b + a mod b" by simp
    then have "a = n * b + a mod b"
      by (simp only: True)
    with le have "a mod b \<le> 0" by linarith
    moreover have "0 \<le> a mod b" using assms(1) by simp
    ultimately have "a mod b = 0" by simp
    with assms(1) True show ?thesis
      by (simp add: round_half_even_def)
  next
    case False
    with d have "a div b + 1 \<le> n" by simp
    then show ?thesis
      by (simp add: round_half_even_def)
  qed
qed

lemma round_half_even_ge:
  assumes "0 < b" and "real_of_int n \<le> real_of_int a / real_of_int b"
  shows "n \<le> round_half_even a b"
proof -
  from assms have "real_of_int (n * b) \<le> real_of_int a"
    by (simp add: field_simps)
  then have le: "n * b \<le> a"
    by (simp only: of_int_le_iff)
  have "(n * b) div b \<le> a div b"
    by (rule zdiv_mono1 [OF le assms(1)])
  moreover have "(n * b) div b = n"
    using assms(1) by simp
  ultimately have "n \<le> a div b" by simp
  then show ?thesis
    by (simp add: round_half_even_def)
qed

lemma scaled_fraction:
  assumes "0 < b"
  shows "real_of_int (a * 2 ^ nat (- e)) / real_of_int (b * 2 ^ nat e)
         = real_of_int a / real_of_int b * 2 powi (- e)"
proof -
  have "real_of_int (2 ^ nat (- e)) / real_of_int (2 ^ nat e) = 2 powi (- e)"
    using pow_nat_diff [of 0 e] by simp
  then show ?thesis
    by (simp add: field_simps)
qed

lemma binade:
  assumes "0 < a" and "0 < b"
  shows "2 ^ 52 \<le> real_of_int a / real_of_int b * 2 powi (52 - floor_log2 a b)"
    and "real_of_int a / real_of_int b * 2 powi (52 - floor_log2 a b) < 2 ^ 53"
proof -
  let ?E = "floor_log2 a b"
  let ?q = "real_of_int a / real_of_int b"
  have p: "(0::real) < 2 powi (52 - ?E)" by simp
  have "2 powi ?E * 2 powi (52 - ?E) \<le> ?q * 2 powi (52 - ?E)"
    using floor_log2_bounds(1) [OF assms] p by (simp only: mult_le_cancel_right_pos)
  moreover have "(2::real) powi ?E * 2 powi (52 - ?E) = 2 ^ 52"
    by (simp add: power_int_add [symmetric])
  ultimately show "2 ^ 52 \<le> ?q * 2 powi (52 - ?E)" by simp
  have "?q * 2 powi (52 - ?E) < 2 powi (?E + 1) * 2 powi (52 - ?E)"
    using floor_log2_bounds(2) [OF assms] p by (simp only: mult_less_cancel_right_pos)
  moreover have "(2::real) powi (?E + 1) * 2 powi (52 - ?E) = 2 ^ 53"
    by (simp add: power_int_add [symmetric])
  ultimately show "?q * 2 powi (52 - ?E) < 2 ^ 53" by simp
qed

lemma round_double_pos:
  assumes "0 < a" and "0 < b"
  shows "round_double a b =
           (round_half_even (a * 2 ^ nat (52 - floor_log2 a b)) (b * 2 ^ nat (floor_log2 a b - 52)),
            floor_log2 a b - 52)"
  using assms by (simp add: round_double_def)


lemma significand_bounds:
  assumes "0 < a" and "0 < b"
  shows "2 ^ 52 \<le> fst (round_double a b)" and "fst (round_double a b) \<le> 2 ^ 53"
proof -
  let ?e = "floor_log2 a b - 52"
  have sb: "0 < b * 2 ^ nat ?e" using assms by simp
  have f: "real_of_int (a * 2 ^ nat (- ?e)) / real_of_int (b * 2 ^ nat ?e)
        = real_of_int a / real_of_int b * 2 powi (52 - floor_log2 a b)"
    using scaled_fraction [OF assms(2), of a ?e] by simp
  have e: "nat (- ?e) = nat (52 - floor_log2 a b)" by simp
  have "real_of_int (2 ^ 52) \<le> real_of_int (a * 2 ^ nat (- ?e)) / real_of_int (b * 2 ^ nat ?e)"
    using binade(1) [OF assms] f by simp
  from round_half_even_ge [OF sb this] show "2 ^ 52 \<le> fst (round_double a b)"
    by (simp add: round_double_pos [OF assms] e)
  have "real_of_int (a * 2 ^ nat (- ?e)) / real_of_int (b * 2 ^ nat ?e) \<le> real_of_int (2 ^ 53)"
    using binade(2) [OF assms] f by simp
  from round_half_even_le [OF sb this] show "fst (round_double a b) \<le> 2 ^ 53"
    by (simp add: round_double_pos [OF assms] e)
qed

lemma dval_pos: "0 < a \<Longrightarrow> 0 < b \<Longrightarrow> 0 < dval (round_double a b)"
  using significand_bounds(1) [of a b] by (simp add: dval_def zero_less_mult_iff)












lemmas double_defs = round_double_def floor_log2_def round_half_even_def double_div_def
  double_less_def int_of_double_def trunc_div_def total_seconds_def compute_bitlen

lemma float_of_int_small: "\<bar>n\<bar> < 2 ^ 53 \<Longrightarrow> float_of_int n = Inr (round_double n 1)"
proof -
  assume "\<bar>n\<bar> < 2 ^ 53"
  moreover have "(2::int) ^ 53 < 2 ^ 1024 - 2 ^ 970"
    by simp
  ultimately have "\<not> 2 ^ 1024 - 2 ^ 970 \<le> \<bar>n\<bar>"
    by linarith
  then show ?thesis
    by (simp only: float_of_int_def if_False)
qed

lemma float_60: "float_of_int 60 = Inr (8444249301319680, - 47)"
  by (simp add: float_of_int_small double_defs)


lemma minutes_of_tick: "double_div (total_seconds 1) (60, 0) = (5037190915060955, - 78)"
  by (simp add: double_defs)

section \<open>Evaluation of the concrete environment\<close>

lemmas parse_defs = fromisoformat_core_def parse_date_def parse_time_def parse_offset_def
  parse_frac_def parse_hms_def check_hm_def check_date_def days_in_month_def field_def
  digit_val_def is_sign_def days_from_civil_def usec_per_day_def

lemmas format_defs = isoformat_def time_str_def civil_from_days_def zpad_def nat_str.simps
  offset_str_def usec_per_day_def

lemma fromisoformat_std_env [simp]: "fromisoformat (std_env c s) = fromisoformat_core"
  by (simp add: std_env_def)

lemma clock_std_env [simp]: "clock (std_env c s) = c"
  by (simp add: std_env_def)

lemma env_2024_simps [simp]:
  "clock env_2024 n = t_2024 + int n"
  "fromisoformat env_2024 = fromisoformat_core"
  "schema_ok env_2024 a = True"
  by (simp_all add: env_2024_def std_env_def ticking_clock_def)

lemma isoformat_t_2024: "isoformat (utc_datetime t_2024) = ''2024-01-01T00:00:00+00:00''"
  by (simp add: format_defs utc_datetime_def t_2024_def cong: let_weak_cong)

lemma parse_t_2024: "fromisoformat_core ''2024-01-01T00:00:00+00:00'' = Some (utc_datetime t_2024)"
  by (simp add: parse_defs utc_datetime_def t_2024_def cong: let_weak_cong)

lemma replicate_numeral: "replicate (numeral k) x = x # replicate (pred_numeral k) x"
  by (simp add: numeral_eq_Suc)

lemma utc_datetime_sel: "wall (utc_datetime t) = t" "utcoffset (utc_datetime t) = Some 0"
  by (simp_all add: utc_datetime_def)

lemma safe_str_JStr: "safe_str E (JStr s) = (if strip s = [] then None else Some (strip s))"
  by (simp add: safe_str_def py_str_def)

lemma safe_str_JNull: "safe_str E JNull = None"
  by (simp add: safe_str_def)

lemma env_sweeps_simps [simp]:
  "clock env_sweeps = sweep_clock"
  "fromisoformat env_sweeps = fromisoformat_core"
  "schema_ok env_sweeps a = True"
  "uuid4_hex env_sweeps n = zpad 24 n @ ''00000000''"
  by (simp_all add: env_sweeps_def std_env_def)

lemma sweep_clock_readings:
  "sweep_clock 0 = t_2024 + 2 * usec_per_hour"
  "sweep_clock (Suc 0) = t_2024 + 2 * usec_per_hour + 1"
  "sweep_clock 2 = t_2024 + 2 * usec_per_hour + 2"
  "sweep_clock 3 = t_2024 + 2 * usec_per_hour + 3"
  "sweep_clock 4 = t_2024 + 3 * usec_per_hour"
  "sweep_clock 5 = t_2024 + 3 * usec_per_hour + 1"
  "sweep_clock 6 = t_2024 + 3 * usec_per_hour + 2"
  "sweep_clock 7 = t_2024 + 3 * usec_per_hour + 3"
  by (simp_all add: sweep_clock_def)

lemma iso_0200_0:
  "isoformat (utc_datetime (t_2024 + 2 * usec_per_hour)) = ''2024-01-01T02:00:00+00:00''"
  by (simp add: format_defs utc_datetime_def t_2024_def usec_per_hour_def replicate_numeral
      cong: let_weak_cong)

lemma iso_0200_1:
  "isoformat (utc_datetime (t_2024 + 2 * usec_per_hour + 1)) = ''2024-01-01T02:00:00.000001+00:00''"
  by (simp add: format_defs utc_datetime_def t_2024_def usec_per_hour_def replicate_numeral
      cong: let_weak_cong)

lemma iso_0200_2:
  "isoformat (utc_datetime (t_2024 + 2 * usec_per_hour + 2)) = ''2024-01-01T02:00:00.000002+00:00''"
  by (simp add: format_defs utc_datetime_def t_2024_def usec_per_hour_def replicate_numeral
      cong: let_weak_cong)

lemma iso_0200_3:
  "isoformat (utc_datetime (t_2024 + 2 * usec_per_hour + 3)) = ''2024-01-01T02:00:00.000003+00:00''"
  by (simp add: format_defs utc_datetime_def t_2024_def usec_per_hour_def replicate_numeral
      cong: let_weak_cong)

lemmas iso_0200 = iso_0200_0 iso_0200_1 iso_0200_2 iso_0200_3

lemma iso_0300_0:
  "isoformat (utc_datetime (t_2024 + 3 * usec_per_hour)) = ''2024-01-01T03:00:00+00:00''"
  by (simp add: format_defs utc_datetime_def t_2024_def usec_per_hour_def replicate_numeral
      cong: let_weak_cong)

lemma iso_0300_1:
  "isoformat (utc_datetime (t_2024 + 3 * usec_per_hour + 1)) = ''2024-01-01T03:00:00.000001+00:00''"
  by (simp add: format_defs utc_datetime_def t_2024_def usec_per_hour_def replicate_numeral
      cong: let_weak_cong)

lemma iso_0300_2:
  "isoformat (utc_datetime (t_2024 + 3 * usec_per_hour + 2)) = ''2024-01-01T03:00:00.000002+00:00''"
  by (simp add: format_defs utc_datetime_def t_2024_def usec_per_hour_def replicate_numeral
      cong: let_weak_cong)

lemma iso_0300_3:
  "isoformat (utc_datetime (t_2024 + 3 * usec_per_hour + 3)) = ''2024-01-01T03:00:00.000003+00:00''"
  by (simp add: format_defs utc_datetime_def t_2024_def usec_per_hour_def replicate_numeral
      cong: let_weak_cong)

lemmas iso_0300 = iso_0300_0 iso_0300_1 iso_0300_2 iso_0300_3

lemma isoformat_deadline:
  "isoformat (utc_datetime (t_2024 + usec_per_hour)) = ''2024-01-01T01:00:00+00:00''"
  by (simp add: format_defs utc_datetime_def t_2024_def usec_per_hour_def cong: let_weak_cong)


lemma alert_ids:
  "''ALT-'' @ take 24 (zpad 24 0 @ ''00000000'') = ''ALT-000000000000000000000000''"
  "''ALT-'' @ take 24 (zpad 24 (Suc 0) @ ''00000000'') = ''ALT-000000000000000000000001''"
  by (simp_all add: zpad_def nat_str.simps replicate_numeral)

lemma strip_literals:
  "strip ''STEP_OPENED'' = ''STEP_OPENED''"
  "strip ''STEP_COMPLETED'' = ''STEP_COMPLETED''"
  "strip ''BT-1'' = ''BT-1''"
  "strip ''2024-01-01T00:00:00Z'' = ''2024-01-01T00:00:00Z''"
  "strip ''R-002-STEP_TIMEOUT'' = ''R-002-STEP_TIMEOUT''"
  "strip ''UNKNOWN_SITE'' = ''UNKNOWN_SITE''"
  "strip ''UNKNOWN_AREA'' = ''UNKNOWN_AREA''"
  "strip ''UNKNOWN_PRODUCT'' = ''UNKNOWN_PRODUCT''"
  "strip ''UNKNOWN_TEMPLATE'' = ''UNKNOWN_TEMPLATE''"
  "strip ''0.1'' = ''0.1''"
  "strip ''UNKNOWN_STEP'' = ''UNKNOWN_STEP''"
  "strip ''UNKNOWN_SECTION'' = ''UNKNOWN_SECTION''"
  "strip ''SWEEP-BT-1-1704067200'' = ''SWEEP-BT-1-1704067200''"
  by (simp_all add: strip_def py_isspace_def)

lemma default_cfg_fields:
  "rule_id default_cfg = ''R-002-STEP_TIMEOUT''" "suppression_window default_cfg = 60"
  "consumers default_cfg = []" "threshold_min default_cfg = 60"
  "pair_type default_cfg = ''STEP_COMPLETED''"
  by (simp_all add: default_cfg_def)

lemma parse_default_cfg: "parse_cfg E [(''threshold_minutes'', JInt 60)] = Inr default_cfg"
  by (simp add: parse_cfg_def py_int_def dict_get_default_def sub_dict_def py_or_def dict_get_def
      safe_str_or_def safe_str_JNull default_cfg_def)

section \<open>The correlation store: recovery and the blank group key\<close>

lemma doc_groups_empty_doc: "doc_groups empty_doc = Inr []"
  by (simp add: doc_groups_def empty_doc_def dict_get_default_def py_or_def)

lemma dict_get_default_set_other:
  "k \<noteq> k' \<Longrightarrow> dict_get_default (dict_set kvs k' v) k d = dict_get_default kvs k d"
  by (simp add: dict_get_default_def dict_set_def update_conv')

lemma load_state_groups:
  assumes "load_state c = Inr doc"
  shows "\<exists>g. doc_groups doc = Inr g"
proof -
  from assms obtain kvs g where c: "c = Json (JObj kvs)" and g: "dict_get kvs ''groups'' = JObj g"
    and has: "dict_has kvs ''groups''"
    and doc: "doc = (if dict_has kvs ''version'' then kvs else dict_set kvs ''version'' (JStr VERSION))"
    by (auto simp: load_state_def split: content.splits json.splits if_splits)
  from g has have "dict_get_default kvs ''groups'' (JObj []) = JObj g"
    by (auto simp: dict_get_def dict_get_default_def dict_has_def split: option.splits)
  then have "dict_get_default doc ''groups'' (JObj []) = JObj g"
    by (simp add: doc dict_get_default_set_other)
  then show ?thesis
    by (simp add: doc_groups_def py_or_def)
qed

lemma read_safe_cases:
  "read_safe True w =
     (case load_state (corr_file w) of
        Inr doc \<Rightarrow> (Inr doc, w)
      | Inl e \<Rightarrow> (Inr empty_doc, w\<lparr>corr_file := Json (sort_keys (JObj empty_doc))\<rparr>))"
  by (simp add: read_safe_def write_atomic_def split: sum.splits)

lemma sort_keys_empty_doc:
  "sort_keys (JObj empty_doc) = JObj [(''groups'', JObj []), (''version'', JStr ''0.1'')]"
  by (simp add: empty_doc_def VERSION_def sort_keys.simps)

lemma load_state_scenario_doc: "load_state (Json scenario_doc) = Inr
    [(''groups'', JObj [(''S1|A1|P1|T1|STEP1|SEC1'', JArr [scenario_open])]), (''version'', JStr ''0.1'')]"
  by (simp add: load_state_def scenario_doc_def dict_get_def dict_has_def)

text \<open>
  C5, as stated, fails: \<^verbatim>\<open>add_event\<close> reads the state through \<^verbatim>\<open>_read_safe(recover=True)\<close>
  before it looks at the group key, so on a blank (zero-byte) state file a call with a blank
  group key does write: the file becomes the empty document.
\<close>

theorem add_event_blank_key_writes_counterexample:
  "corr_file (init_world Blank) = Blank \<and>
   add_event (std_env (ticking_clock t_2024) (\<lambda>a. True)) ''  '' ''E-1'' ''STEP_OPENED''
       ''2024-01-01T00:00:00Z'' (Some ''BT-1'') (init_world Blank)
     = (Inr (), (init_world Blank)\<lparr>corr_file :=
          Json (JObj [(''groups'', JObj []), (''version'', JStr ''0.1'')])\<rparr>)"
  by (simp add: add_event_def read_safe_cases load_state_def doc_groups_empty_doc
      sort_keys_empty_doc strip_def py_isspace_def init_world_def)

text \<open>
  C5, amended: a call of \<^verbatim>\<open>add_event\<close> whose group key is blank after trimming never raises,
  appends no record and reads no clock. When the state file holds a valid document the whole
  world is left as it was (no write); when the file is missing or corrupt, the only effect is
  the recovery write of the empty document.
\<close>

theorem add_event_blank_key:
  assumes "strip group_key = []"
  shows "add_event E group_key event_id event_type event_timestamp batch_token w =
           (Inr (),
            (case load_state (corr_file w) of
               Inr doc \<Rightarrow> w
             | Inl e \<Rightarrow> w\<lparr>corr_file := Json (sort_keys (JObj empty_doc))\<rparr>))"
proof (cases "load_state (corr_file w)")
  case (Inl e)
  then show ?thesis
    using assms by (simp add: add_event_def read_safe_cases doc_groups_empty_doc)
next
  case (Inr doc)
  then obtain g where "doc_groups doc = Inr g"
    using load_state_groups by blast
  with Inr show ?thesis
    using assms by (simp add: add_event_def read_safe_cases)
qed

theorem add_event_blank_key_witness:
  "strip ''  '' = [] \<and>
   add_event (std_env (ticking_clock t_2024) (\<lambda>a. True)) ''  '' ''E-1'' ''STEP_OPENED''
       ''2024-01-01T00:00:00Z'' (Some ''BT-1'') (init_world (Json scenario_doc))
     = (Inr (), init_world (Json scenario_doc))"
proof -
  have blank: "strip ''  '' = []"
    by (simp add: strip_def py_isspace_def)
  show ?thesis
    using add_event_blank_key [OF blank, of "std_env (ticking_clock t_2024) (\<lambda>a. True)" "''E-1''"
        "''STEP_OPENED''" "''2024-01-01T00:00:00Z''" "Some ''BT-1''" "init_world (Json scenario_doc)"]
    by (simp add: blank load_state_scenario_doc init_world_def)
qed

section \<open>Recovery from a corrupted state file\<close>

lemma corrupt_file_load_state: "corrupt_file c \<longleftrightarrow> (\<exists>e. load_state c = Inl e)"
  by (auto simp: corrupt_file_def load_state_def dict_get_def dict_has_def
      split: content.splits json.splits option.splits)

lemma read_safe_corrupt:
  assumes "corrupt_file (corr_file w)"
  shows "read_safe True w = (Inr empty_doc, fresh w)"
proof -
  from assms obtain e where "load_state (corr_file w) = Inl e"
    using corrupt_file_load_state by blast
  then show ?thesis
    by (simp add: read_safe_cases sort_keys_empty_doc fresh_def)
qed

lemma load_state_fresh:
  "load_state (corr_file (fresh w)) = Inr [(''groups'', JObj []), (''version'', JStr ''0.1'')]"
  by (simp add: fresh_def load_state_def dict_get_def dict_has_def)

lemma read_safe_fresh:
  "read_safe True (fresh w) = (Inr [(''groups'', JObj []), (''version'', JStr ''0.1'')], fresh w)"
  by (simp add: read_safe_cases load_state_fresh)

lemma doc_groups_fresh: "doc_groups [(''groups'', JObj []), (''version'', JStr ''0.1'')] = Inr []"
  by (simp add: doc_groups_def dict_get_default_def py_or_def)

lemma get_group_events_corrupt:
  assumes "corrupt_file (corr_file w)"
  shows "get_group_events group_key w = (Inr (JArr []), fresh w)"
  by (simp add: get_group_events_def read_safe_corrupt [OF assms] doc_groups_empty_doc
      dict_get_default_def)

lemma sort_doc_perm:
  "sort_keys (JObj (set_version (dict_set empty_doc ''groups'' g))) =
   sort_keys (JObj (set_version (dict_set [(''groups'', JObj []), (''version'', JStr ''0.1'')] ''groups'' g)))"
  by (simp add: set_version_def dict_set_def dict_get_def py_or_def empty_doc_def VERSION_def
      sort_keys.simps)

lemma sort_doc_empty_groups:
  "sort_keys (JObj (set_version (dict_set empty_doc ''groups'' (JObj [])))) =
   JObj [(''groups'', JObj []), (''version'', JStr ''0.1'')]"
  by (simp add: set_version_def dict_set_def dict_get_def py_or_def empty_doc_def VERSION_def
      sort_keys.simps)

lemma add_event_corrupt:
  assumes "corrupt_file (corr_file w)"
  shows "add_event E gk eid ety ets bt w = add_event E gk eid ety ets bt (fresh w)"
  by (simp add: add_event_def read_safe_corrupt [OF assms] read_safe_fresh doc_groups_empty_doc
      doc_groups_fresh write_atomic_def sort_doc_perm dict_get_default_def Let_def
      split: prod.splits)

lemma add_event_corrupt_ok:
  assumes "corrupt_file (corr_file w)"
  shows "fst (add_event E gk eid ety ets bt w) = Inr ()"
  by (simp add: add_event_def read_safe_corrupt [OF assms] doc_groups_empty_doc Let_def
      split: prod.splits)

lemma minutes_in_days: "(m * 60000000) div (86400000000::int) = m div 1440"
  using div_mult_mult2 [of "60000000::int" m 1440] by simp

lemma cutoff_at_cases:
  "cutoff_at (utc_datetime t) m =
     (if representable_cutoff t m then Inr (utc_datetime (t - m * 60000000)) else Inl OverflowError)"
  by (simp add: cutoff_at_def timedelta_minutes_def dt_add_def utc_datetime_def Let_def
      representable_cutoff_def usec_per_day_def minutes_in_days)

lemma cutoff_at_error: "cutoff_at d m = Inl e \<Longrightarrow> e = OverflowError"
  by (auto simp: cutoff_at_def timedelta_minutes_def dt_add_def Let_def split: sum.splits if_splits)

lemma prune_corrupt_fresh:
  assumes "corrupt_file (corr_file w)"
  shows "prune E m w = prune E m (fresh w)"
  by (simp add: prune_def read_safe_corrupt [OF assms] read_safe_fresh doc_groups_empty_doc
      doc_groups_fresh write_atomic_def sort_doc_perm split: prod.splits sum.splits)

lemma prune_corrupt:
  assumes "corrupt_file (corr_file w)"
  shows "prune E m w =
           (case cutoff_at (utc_datetime (clock E (ticks w))) m of
              Inl e \<Rightarrow> (Inl OverflowError, (fresh w)\<lparr>ticks := Suc (ticks w)\<rparr>)
            | Inr cutoff \<Rightarrow> (Inr (), (fresh w)\<lparr>ticks := Suc (ticks w)\<rparr>))"
  using cutoff_at_error
  by (auto simp add: prune_def read_safe_corrupt [OF assms] doc_groups_empty_doc now_utc_def
      write_atomic_def sort_doc_empty_groups fresh_def split: prod.splits sum.splits)

lemma cutoff_at_2e9:
  "cutoff_at (utc_datetime t_2024) 2000000000 = Inl OverflowError"
  by (simp add: cutoff_at_def timedelta_minutes_def dt_add_def utc_datetime_def t_2024_def
      usec_per_day_def max_wall_def)

lemma cutoff_at_1440:
  "cutoff_at (utc_datetime t_2024) 1440 = Inr (utc_datetime (t_2024 - 86400000000))"
  by (simp add: cutoff_at_def timedelta_minutes_def dt_add_def utc_datetime_def t_2024_def
      usec_per_day_def max_wall_def)

lemma corrupt_blank: "corrupt_file (corr_file (init_world Blank))"
  by (simp add: corrupt_file_def init_world_def)

text \<open>
  C4: on a corrupted or missing state file (missing, empty, not JSON, root not an object,
  \<^verbatim>\<open>groups\<close> missing or not an object) every store operation detects the corruption on
  read, replaces the file by the fresh empty document and then goes on exactly as on that
  empty document, keeping nothing of the old content, and no exception reaches the
  caller: \<^verbatim>\<open>get_group_events\<close> returns the empty list, \<^verbatim>\<open>add_event\<close> returns normally, and
  \<^verbatim>\<open>prune\<close>, for a max-age whose cut-off is a representable datetime (as is the one day of
  its only call), returns normally and leaves the fresh empty document.
\<close>

theorem corrupt_state_recovery:
  assumes "corrupt_file (corr_file w)"
  shows "read_safe True w = (Inr empty_doc, fresh w) \<and>
         get_group_events group_key w = (Inr (JArr []), fresh w) \<and>
         add_event E gk eid ety ets bt w = add_event E gk eid ety ets bt (fresh w) \<and>
         fst (add_event E gk eid ety ets bt w) = Inr () \<and>
         prune E m w = prune E m (fresh w) \<and>
         (representable_cutoff (clock E (ticks w)) m \<longrightarrow>
            prune E m w = (Inr (), (fresh w)\<lparr>ticks := Suc (ticks w)\<rparr>))"
proof (intro conjI impI)
  show "read_safe True w = (Inr empty_doc, fresh w)"
    by (rule read_safe_corrupt [OF assms])
  show "get_group_events group_key w = (Inr (JArr []), fresh w)"
    by (rule get_group_events_corrupt [OF assms])
  show "add_event E gk eid ety ets bt w = add_event E gk eid ety ets bt (fresh w)"
    by (rule add_event_corrupt [OF assms])
  show "fst (add_event E gk eid ety ets bt w) = Inr ()"
    by (rule add_event_corrupt_ok [OF assms])
  show "prune E m w = prune E m (fresh w)"
    by (rule prune_corrupt_fresh [OF assms])
  assume "representable_cutoff (clock E (ticks w)) m"
  then show "prune E m w = (Inr (), (fresh w)\<lparr>ticks := Suc (ticks w)\<rparr>)"
    by (simp add: prune_corrupt [OF assms] cutoff_at_cases)
qed

theorem corrupt_state_recovery_witness:
  "corrupt_file (corr_file (init_world Blank)) \<and>
   representable_cutoff (clock (std_env (ticking_clock t_2024) (\<lambda>a. True)) (ticks (init_world Blank))) 1440 \<and>
   read_safe True (init_world Blank) = (Inr empty_doc, fresh (init_world Blank)) \<and>
   get_group_events ''S1|A1|P1|T1|STEP1|SEC1'' (init_world Blank)
     = (Inr (JArr []), fresh (init_world Blank)) \<and>
   fst (add_event (std_env (ticking_clock t_2024) (\<lambda>a. True)) ''S1|A1|P1|T1|STEP1|SEC1'' ''E-1''
          ''STEP_OPENED'' ''2024-01-01T00:00:00Z'' (Some ''BT-1'') (init_world Blank)) = Inr () \<and>
   prune (std_env (ticking_clock t_2024) (\<lambda>a. True)) 1440 (init_world Blank)
     = (Inr (), (fresh (init_world Blank))\<lparr>ticks := 1\<rparr>)"
proof -
  note r = corrupt_state_recovery [OF corrupt_blank,
      of "''S1|A1|P1|T1|STEP1|SEC1''" "std_env (ticking_clock t_2024) (\<lambda>a. True)"
         "''S1|A1|P1|T1|STEP1|SEC1''" "''E-1''" "''STEP_OPENED''" "''2024-01-01T00:00:00Z''"
         "Some ''BT-1''" 1440]
  have t: "ticks (init_world Blank) = 0"
    by (simp add: init_world_def)
  have rep: "representable_cutoff (clock (std_env (ticking_clock t_2024) (\<lambda>a. True))
      (ticks (init_world Blank))) 1440"
    by (simp add: t ticking_clock_def representable_cutoff_def t_2024_def max_wall_def)
  note p = r [THEN conjunct2, THEN conjunct2, THEN conjunct2, THEN conjunct2, THEN conjunct2,
      rule_format, OF rep]
  show ?thesis
    using corrupt_blank rep r [THEN conjunct1] r [THEN conjunct2, THEN conjunct1]
      r [THEN conjunct2, THEN conjunct2, THEN conjunct2, THEN conjunct1] p
    by (simp add: t)
qed

section \<open>Pruning\<close>

lemma set_dict_set_subset: "set (dict_set al k v) \<subseteq> insert (k, v) (set al)"
  unfolding dict_set_def by (induction al) auto

lemma prune_groups_kept:
  "\<forall>p \<in> set acc. kept_group E cutoff p \<Longrightarrow>
   \<forall>p \<in> set (prune_groups E cutoff gs acc). kept_group E cutoff p"
proof (induction gs arbitrary: acc)
  case Nil
  then show ?case by simp
next
  case (Cons g gs)
  obtain gk events where g: "g = (gk, events)"
    by (cases g)
  show ?case
  proof (cases events)
    case (JArr es)
    let ?kept = "filter (keep_event E cutoff) es"
    let ?acc = "if ?kept \<noteq> [] then dict_set acc gk (JArr ?kept) else acc"
    have "\<forall>p \<in> set ?acc. kept_group E cutoff p"
    proof (cases "?kept = []")
      case True
      with Cons.prems show ?thesis by simp
    next
      case False
      have "set (dict_set acc gk (JArr ?kept)) \<subseteq> insert (gk, JArr ?kept) (set acc)"
        by (rule set_dict_set_subset)
      moreover have "kept_group E cutoff (gk, JArr ?kept)"
        using False by (simp add: kept_group_def)
      ultimately show ?thesis
        using False Cons.prems by auto
    qed
    from Cons.IH [OF this] show ?thesis
      by (simp add: g JArr)
  qed (use Cons in \<open>simp_all add: g\<close>)
qed

lemma read_safe_total:
  "\<exists>doc g c. read_safe True w = (Inr doc, w\<lparr>corr_file := c\<rparr>) \<and> doc_groups doc = Inr g"
proof (cases "load_state (corr_file w)")
  case (Inl e)
  then have "read_safe True w = (Inr empty_doc, w\<lparr>corr_file := Json (sort_keys (JObj empty_doc))\<rparr>)"
    by (simp add: read_safe_cases)
  then show ?thesis
    using doc_groups_empty_doc by blast
next
  case (Inr doc)
  then obtain g where g: "doc_groups doc = Inr g"
    using load_state_groups by blast
  from Inr have "read_safe True w = (Inr doc, w\<lparr>corr_file := corr_file w\<rparr>)"
    by (simp add: read_safe_cases)
  with g show ?thesis
    by blast
qed

lemma map_of_set_version_groups:
  "map_of (set_version (dict_set doc ''groups'' v)) ''groups'' = Some v"
  by (simp add: set_version_def dict_set_def update_conv')


lemma prune_groups_map_of:
  assumes "distinct (map fst gs)" and "fst ` set acc \<inter> fst ` set gs = {}"
  shows "map_of (prune_groups E cutoff gs acc) k =
           (case map_of gs k of None \<Rightarrow> map_of acc k | Some v \<Rightarrow> kept_records E cutoff v)"
  using assms
proof (induction gs arbitrary: acc)
  case Nil
  then show ?case by simp
next
  case (Cons g gs)
  obtain gk events where g: "g = (gk, events)"
    by (cases g)
  let ?acc = "case kept_records E cutoff events of None \<Rightarrow> acc | Some v \<Rightarrow> dict_set acc gk v"
  have step: "prune_groups E cutoff (g # gs) acc = prune_groups E cutoff gs ?acc"
    by (cases events) (simp_all add: g kept_records_def)
  from Cons.prems have gk: "gk \<notin> fst ` set gs" "gk \<notin> fst ` set acc" and d: "distinct (map fst gs)"
    by (auto simp: g)
  have sub: "fst ` set ?acc \<subseteq> insert gk (fst ` set acc)"
    by (auto simp: dict_set_def dom_update split: option.splits)
  from Cons.prems have "fst ` set acc \<inter> fst ` set gs = {}"
    by (auto simp: g)
  with sub gk(1) have disj: "fst ` set ?acc \<inter> fst ` set gs = {}"
    by blast
  have acc_gk: "map_of ?acc gk = kept_records E cutoff events"
    using gk(2) by (auto simp: dict_set_def update_conv' map_of_eq_None_iff split: option.splits)
  have acc_other: "k \<noteq> gk \<Longrightarrow> map_of ?acc k = map_of acc k"
    by (auto simp: dict_set_def update_conv' split: option.splits)
  have gs_gk: "map_of gs gk = None"
    using gk(1) by (simp add: map_of_eq_None_iff)
  show ?case
    unfolding step Cons.IH [OF d disj]
    using acc_gk acc_other gs_gk by (auto simp: g split: option.splits)
qed


lemma keep_event_recent: "keep_event E (utc_datetime b) r = recent_enough E b r"
  by (auto simp: keep_event_def recent_enough_def dt_le_def utc_datetime_def
      split: option.splits)

lemma keep_event_recent_fun: "keep_event E (utc_datetime b) = recent_enough E b"
  by (rule ext) (rule keep_event_recent)

lemma kept_records_recent: "kept_records E (utc_datetime b) v = recent_records E b v"
  by (simp add: kept_records_def recent_records_def keep_event_recent_fun split: json.splits)

lemma kept_group_recent:
  assumes "kept_group E (utc_datetime b) p"
  shows "\<exists>recs. snd p = JArr recs \<and> recs \<noteq> [] \<and> (\<forall>r \<in> set recs. recent_enough E b r)"
  using assms by (auto simp: kept_group_def keep_event_recent split: json.splits)

lemma ts_old:
  "record_timestamp (std_env c s) (stored_record e ''2023-12-30T00:00:00Z'')
     = Some (utc_datetime (t_2024 - 2 * 86400000000))"
  by (simp add: record_timestamp_def stored_record_def dict_get_def py_or_def py_str_def
      store_parse_iso_def strip_def py_isspace_def endswith_def parse_defs utc_datetime_def t_2024_def
      cong: let_weak_cong)

lemma ts_recent:
  "record_timestamp (std_env c s) (stored_record e ''2023-12-31T12:00:00+00:00'')
     = Some (utc_datetime (t_2024 - 43200000000))"
  by (simp add: record_timestamp_def stored_record_def dict_get_def py_or_def py_str_def
      store_parse_iso_def strip_def py_isspace_def endswith_def parse_defs utc_datetime_def t_2024_def
      cong: let_weak_cong)

lemma ts_day:
  "record_timestamp (std_env c s) (stored_record e ''2023-12-31T00:00:00Z'')
     = Some (utc_datetime (t_2024 - 86400000000))"
  by (simp add: record_timestamp_def stored_record_def dict_get_def py_or_def py_str_def
      store_parse_iso_def strip_def py_isspace_def endswith_def parse_defs utc_datetime_def t_2024_def
      cong: let_weak_cong)

lemma ts_garbage:
  "record_timestamp (std_env c s) (stored_record e ''not-a-time'') = None"
  by (simp add: record_timestamp_def stored_record_def dict_get_def py_or_def py_str_def
      store_parse_iso_def strip_def py_isspace_def endswith_def parse_defs
      cong: let_weak_cong)

lemma recent_concrete:
  "\<not> recent_enough (std_env c s) (t_2024 - 86400000000) (stored_record e ''2023-12-30T00:00:00Z'')"
  "recent_enough (std_env c s) (t_2024 - 86400000000) (stored_record e ''2023-12-31T12:00:00+00:00'')"
  "\<not> recent_enough (std_env c s) (t_2024 - 86400000000) (stored_record e ''not-a-time'')"
  "recent_enough (std_env c s) (t_2024 - 86400000000) (stored_record e ''2023-12-31T00:00:00Z'')"
  by (simp_all add: recent_enough_def ts_old ts_recent ts_garbage ts_day utc_datetime_def)

lemma keep_concrete:
  "\<not> keep_event (std_env c s) (utc_datetime (t_2024 - 86400000000)) (stored_record e ''2023-12-30T00:00:00Z'')"
  "keep_event (std_env c s) (utc_datetime (t_2024 - 86400000000)) (stored_record e ''2023-12-31T12:00:00+00:00'')"
  "\<not> keep_event (std_env c s) (utc_datetime (t_2024 - 86400000000)) (stored_record e ''not-a-time'')"
  "keep_event (std_env c s) (utc_datetime (t_2024 - 86400000000)) (stored_record e ''2023-12-31T00:00:00Z'')"
  by (simp_all add: keep_event_recent recent_concrete)

lemma load_prune_doc:
  "load_state (Json prune_doc) = Inr [(''groups'', JObj prune_groups_in), (''version'', JStr ''0.1'')]"
  by (simp add: load_state_def prune_doc_def dict_get_def dict_has_def)

lemma sort_keys_stored_record: "sort_keys (stored_record e ts) = stored_record e ts"
  by (simp add: stored_record_def sort_keys.simps)

lemma representable_1440: "representable_cutoff t_2024 1440"
  by (simp add: representable_cutoff_def t_2024_def max_wall_def)

lemma not_representable_2e9: "\<not> representable_cutoff t_2024 2000000000"
  by (simp add: representable_cutoff_def t_2024_def max_wall_def)

lemma prune_concrete:
  "prune (std_env (ticking_clock t_2024) (\<lambda>a. True)) 1440 (init_world (Json prune_doc))
     = (Inr (), (init_world (Json pruned_doc))\<lparr>ticks := 1\<rparr>)"
  by (simp add: prune_def read_safe_cases init_world_def load_prune_doc doc_groups_def
      dict_get_default_def py_or_def now_utc_def ticking_clock_def cutoff_at_1440 keep_concrete
      write_atomic_def set_version_def dict_set_def dict_get_def VERSION_def sort_keys.simps
      sort_keys_stored_record pruned_doc_def prune_groups_in_def)

lemma prune_overflow_concrete:
  "prune (std_env (ticking_clock t_2024) (\<lambda>a. True)) 2000000000 (init_world (Json prune_doc))
     = (Inl OverflowError, (init_world (Json prune_doc))\<lparr>ticks := 1\<rparr>)"
  by (simp add: prune_def read_safe_cases init_world_def load_prune_doc doc_groups_def
      dict_get_default_def py_or_def now_utc_def ticking_clock_def cutoff_at_2e9)

text \<open>
  C3, as stated, fails for a max-age beyond the range of Python's datetimes: at
  2024-01-01T00:00:00Z, \<^verbatim>\<open>prune(max_age_minutes=2000000000)\<close> raises \<^verbatim>\<open>OverflowError\<close> while
  computing its cut-off and writes nothing, so the record \<open>E-3\<close>, whose timestamp does not
  parse, stays in the document.
\<close>

theorem prune_huge_max_age_counterexample:
  "prune (std_env (ticking_clock t_2024) (\<lambda>a. True)) 2000000000 (init_world (Json prune_doc))
     = (Inl OverflowError, (init_world (Json prune_doc))\<lparr>ticks := 1\<rparr>) \<and>
   record_timestamp (std_env (ticking_clock t_2024) (\<lambda>a. True)) (stored_record ''E-3'' ''not-a-time'')
     = None \<and>
   stored_record ''E-3'' ''not-a-time'' \<in> set (case map_of prune_groups_in ''G1'' of
                                                   Some (JArr es) \<Rightarrow> es | _ \<Rightarrow> [])"
  by (simp add: prune_overflow_concrete ts_garbage prune_groups_in_def)

text \<open>
  C3, amended: let the state document read by \<^verbatim>\<open>prune\<close> (after recovery, if the file was
  corrupt) have the groups \<open>gs\<close>, and let \<open>t\<close> be the clock reading of the call. For every
  max-age \<open>M\<close> for which \<open>t - M\<close> minutes is a representable cut-off, \<^verbatim>\<open>prune\<close> does not raise
  and writes a document in which every group is a non-empty list of records that are
  recent enough: each has a timestamp that parses to an instant at or after \<open>t - M\<close>
  minutes. So the records older than that bound, the records whose timestamp does not
  parse and the groups left empty are gone; and, the group keys being distinct as in a
  dict, every group keeps exactly its recent enough records, in their order. For every
  other \<open>M\<close> the call raises \<^verbatim>\<open>OverflowError\<close> and prunes nothing: the state file is as
  the read left it.
\<close>

theorem prune_keeps_recent_records:
  assumes "read_safe True w = (Inr doc0, w1)"
    and "doc_groups doc0 = Inr gs"
  shows "(representable_cutoff (clock E (ticks w)) M \<longrightarrow>
            (\<exists>doc new_groups.
               prune E M w =
                 (Inr (), w\<lparr>ticks := Suc (ticks w), corr_file := Json (sort_keys (JObj doc))\<rparr>) \<and>
               map_of doc ''groups'' = Some (JObj new_groups) \<and>
               (\<forall>(gk, v) \<in> set new_groups.
                  \<exists>recs. v = JArr recs \<and> recs \<noteq> [] \<and>
                    (\<forall>r \<in> set recs. recent_enough E (clock E (ticks w) - M * 60000000) r)) \<and>
               (distinct (map fst gs) \<longrightarrow>
                  (\<forall>k. map_of new_groups k =
                     (case map_of gs k of
                        None \<Rightarrow> None
                      | Some v \<Rightarrow> recent_records E (clock E (ticks w) - M * 60000000) v))))) \<and>
         (\<not> representable_cutoff (clock E (ticks w)) M \<longrightarrow>
            prune E M w = (Inl OverflowError, w1\<lparr>ticks := Suc (ticks w)\<rparr>))"
proof (intro conjI impI)
  from read_safe_total [of w] assms(1) obtain c where w1: "w1 = w\<lparr>corr_file := c\<rparr>"
    by auto
  {
    assume "\<not> representable_cutoff (clock E (ticks w)) M"
    then show "prune E M w = (Inl OverflowError, w1\<lparr>ticks := Suc (ticks w)\<rparr>)"
      using assms by (simp add: prune_def w1 now_utc_def cutoff_at_cases)
  }
  assume rep: "representable_cutoff (clock E (ticks w)) M"
  let ?b = "clock E (ticks w) - M * 60000000"
  let ?ng = "prune_groups E (utc_datetime ?b) gs []"
  let ?doc = "set_version (dict_set doc0 ''groups'' (JObj ?ng))"
  have run: "prune E M w =
      (Inr (), w\<lparr>ticks := Suc (ticks w), corr_file := Json (sort_keys (JObj ?doc))\<rparr>)"
    using assms rep by (simp add: prune_def w1 now_utc_def write_atomic_def cutoff_at_cases)
  have "\<forall>p \<in> set ?ng. kept_group E (utc_datetime ?b) p"
    by (rule prune_groups_kept) simp
  then have kept: "\<forall>(gk, v) \<in> set ?ng.
      \<exists>recs. v = JArr recs \<and> recs \<noteq> [] \<and> (\<forall>r \<in> set recs. recent_enough E ?b r)"
    using kept_group_recent [of E ?b] by fastforce
  have exact: "distinct (map fst gs) \<longrightarrow>
      (\<forall>k. map_of ?ng k = (case map_of gs k of None \<Rightarrow> None | Some v \<Rightarrow> recent_records E ?b v))"
    by (simp add: prune_groups_map_of [of gs "[]" E "utc_datetime ?b"] kept_records_recent
        split: option.splits)
  show "\<exists>doc new_groups.
               prune E M w =
                 (Inr (), w\<lparr>ticks := Suc (ticks w), corr_file := Json (sort_keys (JObj doc))\<rparr>) \<and>
               map_of doc ''groups'' = Some (JObj new_groups) \<and>
               (\<forall>(gk, v) \<in> set new_groups.
                  \<exists>recs. v = JArr recs \<and> recs \<noteq> [] \<and>
                    (\<forall>r \<in> set recs. recent_enough E ?b r)) \<and>
               (distinct (map fst gs) \<longrightarrow>
                  (\<forall>k. map_of new_groups k =
                     (case map_of gs k of
                        None \<Rightarrow> None
                      | Some v \<Rightarrow> recent_records E ?b v)))"
    using run map_of_set_version_groups [of doc0 "JObj ?ng"] kept exact by blast
qed

theorem prune_keeps_recent_records_witness:
  "read_safe True (init_world (Json prune_doc))
     = (Inr [(''groups'', JObj prune_groups_in), (''version'', JStr ''0.1'')],
        init_world (Json prune_doc)) \<and>
   representable_cutoff (clock (std_env (ticking_clock t_2024) (\<lambda>a. True))
       (ticks (init_world (Json prune_doc)))) 1440 \<and>
   (\<exists>doc new_groups.
      prune (std_env (ticking_clock t_2024) (\<lambda>a. True)) 1440 (init_world (Json prune_doc)) =
        (Inr (), (init_world (Json prune_doc))
           \<lparr>ticks := Suc (ticks (init_world (Json prune_doc))),
            corr_file := Json (sort_keys (JObj doc))\<rparr>) \<and>
      map_of doc ''groups'' = Some (JObj new_groups) \<and>
      (\<forall>(gk, v) \<in> set new_groups.
         \<exists>recs. v = JArr recs \<and> recs \<noteq> [] \<and>
           (\<forall>r \<in> set recs.
              recent_enough (std_env (ticking_clock t_2024) (\<lambda>a. True)) (t_2024 - 1440 * 60000000) r)) \<and>
      map_of new_groups ''G1'' = Some (JArr [stored_record ''E-2'' ''2023-12-31T12:00:00+00:00'',
                                             stored_record ''E-5'' ''2023-12-31T00:00:00Z'']) \<and>
      map_of new_groups ''G2'' = None) \<and>
   prune (std_env (ticking_clock t_2024) (\<lambda>a. True)) 1440 (init_world (Json prune_doc))
     = (Inr (), (init_world (Json pruned_doc))\<lparr>ticks := 1\<rparr>) \<and>
   \<not> representable_cutoff (clock (std_env (ticking_clock t_2024) (\<lambda>a. True))
       (ticks (init_world (Json prune_doc)))) 2000000000 \<and>
   prune (std_env (ticking_clock t_2024) (\<lambda>a. True)) 2000000000 (init_world (Json prune_doc))
     = (Inl OverflowError,
        (init_world (Json prune_doc))\<lparr>ticks := Suc (ticks (init_world (Json prune_doc)))\<rparr>)"
proof -
  let ?E = "std_env (ticking_clock t_2024) (\<lambda>a. True)"
  let ?w = "init_world (Json prune_doc)"
  let ?doc0 = "[(''groups'', JObj prune_groups_in), (''version'', JStr ''0.1'')]"
  have t: "ticks ?w = 0" and c: "corr_file ?w = Json prune_doc"
    by (simp_all add: init_world_def)
  have h1: "read_safe True ?w = (Inr ?doc0, ?w)"
    by (simp add: read_safe_cases c load_prune_doc)
  have h2: "doc_groups ?doc0 = Inr prune_groups_in"
    by (simp add: doc_groups_def dict_get_default_def py_or_def prune_groups_in_def)
  have h3: "representable_cutoff (clock ?E (ticks ?w)) 1440"
    by (simp add: t ticking_clock_def representable_1440)
  have h4: "\<not> representable_cutoff (clock ?E (ticks ?w)) 2000000000"
    by (simp add: t ticking_clock_def not_representable_2e9)
  have d: "distinct (map fst prune_groups_in)"
    by (simp add: prune_groups_in_def)
  have k1: "map_of prune_groups_in ''G1''
      = Some (JArr [stored_record ''E-1'' ''2023-12-30T00:00:00Z'',
                    stored_record ''E-2'' ''2023-12-31T12:00:00+00:00'',
                    stored_record ''E-3'' ''not-a-time'',
                    stored_record ''E-5'' ''2023-12-31T00:00:00Z''])"
    and k2: "map_of prune_groups_in ''G2'' = Some (JArr [stored_record ''E-4'' ''2023-12-30T00:00:00Z''])"
    by (simp_all add: prune_groups_in_def)
  from prune_keeps_recent_records [OF h1 h2, of ?E 1440, THEN conjunct1, rule_format, OF h3] d
  obtain doc new_groups where
    p: "prune ?E 1440 ?w =
        (Inr (), ?w\<lparr>ticks := Suc (ticks ?w), corr_file := Json (sort_keys (JObj doc))\<rparr>)"
    and g: "map_of doc ''groups'' = Some (JObj new_groups)"
    and r: "\<forall>(gk, v) \<in> set new_groups.
         \<exists>recs. v = JArr recs \<and> recs \<noteq> [] \<and>
           (\<forall>r \<in> set recs. recent_enough ?E (clock ?E (ticks ?w) - 1440 * 60000000) r)"
    and e: "\<forall>k. map_of new_groups k =
                 (case map_of prune_groups_in k of None \<Rightarrow> None
                  | Some v \<Rightarrow> recent_records ?E (clock ?E (ticks ?w) - 1440 * 60000000) v)"
    by blast
  from e have e1: "map_of new_groups ''G1'' = Some (JArr [stored_record ''E-2'' ''2023-12-31T12:00:00+00:00'',
                                             stored_record ''E-5'' ''2023-12-31T00:00:00Z''])"
    and e2: "map_of new_groups ''G2'' = None"
    by (simp_all add: k1 k2 t ticking_clock_def recent_records_def recent_concrete)
  from r have r': "\<forall>(gk, v) \<in> set new_groups.
         \<exists>recs. v = JArr recs \<and> recs \<noteq> [] \<and>
           (\<forall>r \<in> set recs. recent_enough ?E (t_2024 - 1440 * 60000000) r)"
    by (simp add: t ticking_clock_def)
  note o = prune_keeps_recent_records [OF h1 h2, of ?E 2000000000, THEN conjunct2, rule_format, OF h4]
  show ?thesis
    using h1 h3 h4 p g r' e1 e2 prune_concrete o by blast
qed

section \<open>Writing and reading back the state document\<close>

lemma map_of_insort_key_fst:
  "map_of (insort_key fst (k, v) ys) = (map_of ys)(k \<mapsto> v)"
  by (induction ys) (auto simp: fun_upd_twist)

lemma map_of_sort_key_fst: "map_of (sort_key fst xs) = map_of xs"
proof (induction xs)
  case Nil
  then show ?case by simp
next
  case (Cons x xs)
  obtain k v where "x = (k, v)" by (cases x)
  with Cons show ?case
    by (simp add: map_of_insort_key_fst)
qed

lemma map_of_map_values:
  "map_of (map (\<lambda>(k, v). (k, f v)) kvs) k = map_option f (map_of kvs k)"
  by (induction kvs) auto

lemma map_of_sorted_dict:
  "map_of (sort_key fst (map (\<lambda>(k, v). (k, sort_keys v)) kvs)) k = map_option sort_keys (map_of kvs k)"
  by (simp add: map_of_sort_key_fst map_of_map_values)

lemma keys_sorted_dict:
  "set (map fst (sort_key fst (map (\<lambda>(k, v). (k, sort_keys v)) kvs))) = set (map fst kvs)"
  by (force simp: image_iff)

lemma same_json_sort_keys: "same_json (sort_keys j) j"
proof (induction j)
  case (JArr xs)
  then show ?case
    by (simp add: sort_keys.simps same_json.simps list_all2_map1 list_all2_same)
next
  case (JObj kvs)
  have "case map_of (sort_key fst (map (\<lambda>(k, v). (k, sort_keys v)) kvs)) k of
          None \<Rightarrow> False
        | Some v \<Rightarrow> (case map_of kvs k of None \<Rightarrow> False | Some v' \<Rightarrow> same_json v v')"
    if "k \<in> set (map fst kvs)" for k
  proof -
    from that obtain v where v: "map_of kvs k = Some v"
      by (metis map_of_eq_None_iff not_None_eq set_map)
    then have "(k, v) \<in> set kvs"
      by (rule map_of_SomeD)
    then have "same_json (sort_keys v) v"
      using JObj.IH by force
    with v show ?thesis
      by (simp add: map_of_sorted_dict)
  qed
  then show ?case
    by (simp add: sort_keys.simps same_json.simps keys_sorted_dict del: set_map)
qed (simp_all add: sort_keys.simps same_json.simps)


text \<open>
  C8: for every valid state document \<open>d\<close> (its \<^verbatim>\<open>groups\<close> is an object), reading through
  \<^verbatim>\<open>_read_safe\<close> what \<^verbatim>\<open>_write_atomic\<close> wrote returns a document without triggering the
  recovery (the file is left as written), whose groups are the same as those of \<open>d\<close>: the
  same group keys, and under each key the same records in the same order. When \<open>d\<close> has
  its \<^verbatim>\<open>version\<close> the whole document read is the same as \<open>d\<close>.
\<close>

theorem write_then_read_roundtrip:
  assumes "map_of d ''groups'' = Some (JObj g)"
  shows "\<exists>d' g'. read_safe recover (write_atomic d w) = (Inr d', write_atomic d w) \<and>
           map_of d' ''groups'' = Some (JObj g') \<and>
           same_json (JObj g') (JObj g) \<and>
           (\<forall>k recs. map_of g k = Some (JArr recs) \<longrightarrow>
              (\<exists>recs'. map_of g' k = Some (JArr recs') \<and> list_all2 same_json recs' recs)) \<and>
           (dict_has d ''version'' \<longrightarrow> same_json (JObj d') (JObj d))"
proof -
  let ?sd = "sort_key fst (map (\<lambda>(k, v). (k, sort_keys v)) d)"
  let ?sg = "sort_key fst (map (\<lambda>(k, v). (k, sort_keys v)) g)"
  let ?d' = "if dict_has ?sd ''version'' then ?sd else dict_set ?sd ''version'' (JStr VERSION)"
  have sd: "sort_keys (JObj d) = JObj ?sd" and sg: "sort_keys (JObj g) = JObj ?sg"
    by (simp_all add: sort_keys.simps)
  have grp: "map_of ?sd ''groups'' = Some (JObj ?sg)"
    using assms by (simp add: map_of_sorted_dict sort_keys.simps)
  then have load: "load_state (Json (sort_keys (JObj d))) = Inr ?d'"
    by (simp add: sd load_state_def dict_get_def dict_has_def)
  have read: "read_safe recover (write_atomic d w) = (Inr ?d', write_atomic d w)"
    using load by (simp add: read_safe_def write_atomic_def)
  have grp': "map_of ?d' ''groups'' = Some (JObj ?sg)"
    using grp by (simp add: dict_set_def update_conv')
  have same_g: "same_json (JObj ?sg) (JObj g)"
    unfolding sg [symmetric] by (rule same_json_sort_keys)
  have recs: "\<exists>recs'. map_of ?sg k = Some (JArr recs') \<and> list_all2 same_json recs' recs"
    if "map_of g k = Some (JArr recs)" for k recs
  proof -
    have "map_of ?sg k = Some (JArr (map sort_keys recs))"
      using that by (simp add: map_of_sorted_dict sort_keys.simps)
    moreover have "list_all2 same_json (map sort_keys recs) recs"
      by (simp add: list_all2_map1 list_all2_same same_json_sort_keys)
    ultimately show ?thesis by blast
  qed
  have same_d: "same_json (JObj ?d') (JObj d)" if "dict_has d ''version''"
  proof -
    from that have "dict_has ?sd ''version''"
      by (simp add: dict_has_def map_of_sorted_dict)
    then have "?d' = ?sd" by simp
    then show ?thesis
      using same_json_sort_keys [of "JObj d"] by (simp only: sd)
  qed
  show ?thesis
    using read grp' same_g recs same_d by blast
qed

theorem write_then_read_roundtrip_witness:
  "map_of [(''version'', JStr ''0.1''),
           (''groups'', JObj [(''S1|A1|P1|T1|STEP1|SEC1'', JArr [scenario_open])])] ''groups''
     = Some (JObj [(''S1|A1|P1|T1|STEP1|SEC1'', JArr [scenario_open])]) \<and>
   dict_has [(''version'', JStr ''0.1''),
           (''groups'', JObj [(''S1|A1|P1|T1|STEP1|SEC1'', JArr [scenario_open])])] ''version'' \<and>
   (\<exists>d' g'.
      read_safe True
        (write_atomic [(''version'', JStr ''0.1''),
           (''groups'', JObj [(''S1|A1|P1|T1|STEP1|SEC1'', JArr [scenario_open])])] (init_world Absent))
      = (Inr d', write_atomic [(''version'', JStr ''0.1''),
           (''groups'', JObj [(''S1|A1|P1|T1|STEP1|SEC1'', JArr [scenario_open])])] (init_world Absent)) \<and>
      map_of d' ''groups'' = Some (JObj g') \<and>
      same_json (JObj g') (JObj [(''S1|A1|P1|T1|STEP1|SEC1'', JArr [scenario_open])]) \<and>
      (\<exists>recs'. map_of g' ''S1|A1|P1|T1|STEP1|SEC1'' = Some (JArr recs') \<and>
         list_all2 same_json recs' [scenario_open]) \<and>
      same_json (JObj d') (JObj [(''version'', JStr ''0.1''),
           (''groups'', JObj [(''S1|A1|P1|T1|STEP1|SEC1'', JArr [scenario_open])])]))"
proof -
  let ?g = "[(''S1|A1|P1|T1|STEP1|SEC1'', JArr [scenario_open])]"
  let ?d = "[(''version'', JStr ''0.1''), (''groups'', JObj ?g)]"
  have h: "map_of ?d ''groups'' = Some (JObj ?g)"
    by simp
  have v: "dict_has ?d ''version''"
    by (simp add: dict_has_def)
  have m: "map_of ?g ''S1|A1|P1|T1|STEP1|SEC1'' = Some (JArr [scenario_open])"
    by simp
  from write_then_read_roundtrip [OF h, of True "init_world Absent"] v m
  show ?thesis
    using h by blast
qed

section \<open>Routing with no consumers\<close>

lemma normalize_none: "normalize pol None = Inr []"
  by (simp add: normalize_def)

lemma normalize_nil: "normalize pol (Some []) = Inr []"
  by (simp add: normalize_def)

lemma parse_cfg_no_routing:
  assumes "parse_cfg E cfgd = Inr cfg"
    and "sub_dict cfgd ''routing'' = Inr rc"
    and "dict_get_default rc ''consumers'' (JArr []) = JArr [] \<or>
         (\<forall>xs. dict_get_default rc ''consumers'' (JArr []) \<noteq> JArr xs)"
  shows "consumers cfg = []"
  using assms
  by (auto simp: parse_cfg_def split: sum.splits json.splits)

text \<open>
  C9: \<^verbatim>\<open>RoutingPolicy.normalize\<close> returns the empty consumer list for \<^verbatim>\<open>None\<close> and for the
  empty list, whatever the policy (no exception, the allow-list plays no part); so a sweep
  whose configuration has no routing consumers passes the routing step for every candidate
  and goes on to the suppression check, and a configuration without a \<^verbatim>\<open>routing\<close> key is
  such a configuration.
\<close>

theorem routing_empty_consumers:
  "normalize pol None = Inr [] \<and>
   normalize pol (Some []) = Inr [] \<and>
   (consumers cfg = [] \<longrightarrow>
      emit_alert E pol cfg ev w =
        emit_routed E cfg ev
          (log_audit (RoutingApplied (safe_str E (dict_get ev ''event_id'')) (rule_id cfg) []
                        (rp_version pol)) w)) \<and>
   (parse_cfg E cfgd = Inr cfg' \<longrightarrow> \<not> dict_has cfgd ''routing'' \<longrightarrow> consumers cfg' = [])"
proof -
  have "consumers cfg' = []" if p: "parse_cfg E cfgd = Inr cfg'" and n: "\<not> dict_has cfgd ''routing''"
  proof -
    from n have "sub_dict cfgd ''routing'' = Inr []"
      by (simp add: sub_dict_def dict_has_def dict_get_default_def py_or_def)
    from parse_cfg_no_routing [OF p this] show ?thesis
      by (simp add: dict_get_default_def)
  qed
  then show ?thesis
    by (simp add: normalize_none normalize_nil emit_alert_def)
qed

theorem routing_empty_consumers_witness:
  "consumers default_cfg = [] \<and>
   parse_cfg env_2024 [(''threshold_minutes'', JInt 60)] = Inr default_cfg \<and>
   \<not> dict_has [(''threshold_minutes'', JInt 60)] ''routing'' \<and>
   normalize demo_policy None = Inr [] \<and>
   normalize demo_policy (Some []) = Inr [] \<and>
   emit_alert env_2024 demo_policy default_cfg [(''event_id'', JStr ''E-1'')] (init_world Absent) =
     emit_routed env_2024 default_cfg [(''event_id'', JStr ''E-1'')]
       (log_audit (RoutingApplied (safe_str env_2024 (dict_get [(''event_id'', JStr ''E-1'')] ''event_id''))
                     (rule_id default_cfg) [] (rp_version demo_policy)) (init_world Absent))"
proof -
  have c: "consumers default_cfg = []"
    by (simp add: default_cfg_def)
  have n: "\<not> dict_has [(''threshold_minutes'', JInt 60)] ''routing''"
    by (simp add: dict_has_def)
  from routing_empty_consumers [of demo_policy default_cfg env_2024 "[(''event_id'', JStr ''E-1'')]"
      "init_world Absent" "[(''threshold_minutes'', JInt 60)]" default_cfg]
  show ?thesis
    using c n parse_default_cfg [of env_2024] by blast
qed

section \<open>The suppression gate\<close>

lemma check_first:
  "check_and_update env_2024 ''K'' 60 (init_world Absent) =
     (Inr first_decision,
      (init_world Absent)\<lparr>ticks := 1, supp_file := supp_after_first\<rparr>)"
  by (simp add: check_and_update_def read_json_def init_world_def now_utc_def dict_get_default_def
      py_or_def within_window_def dict_get_def isoformat_t_2024 dict_set_def sort_keys.simps
      supp_after_first_def first_decision_def second_decision_def)

lemma check_second:
  "check_and_update env_2024 ''K'' 60 ((init_world Absent)\<lparr>ticks := 1, supp_file := supp_after_first\<rparr>) =
     (Inr second_decision,
      (init_world Absent)\<lparr>ticks := 2, supp_file := supp_after_first\<rparr>)"
  by (simp add: check_and_update_def read_json_def init_world_def now_utc_def dict_get_default_def
      py_or_def within_window_def dict_get_def parse_t_2024 dt_diff_def utc_datetime_def json_str_def
      minutes_of_tick float_60 double_less_def
      supp_after_first_def first_decision_def second_decision_def)


lemma garbage_unparsable: "fromisoformat_core ''garbage'' = None"
  by (simp add: fromisoformat_core_def)

lemma supp_garbage_state:
  "supp_file ((init_world Absent)\<lparr>supp_file := supp_garbage\<rparr>)
     = Json (JObj [(''state'', JObj [(''K'', JStr ''garbage'')]), (''version'', JStr ''0.1'')])"
  "py_or (dict_get_default [(''state'', JObj [(''K'', JStr ''garbage'')]), (''version'', JStr ''0.1'')]
            ''state'' (JObj [])) (JObj []) = JObj [(''K'', JStr ''garbage'')]"
  by (simp_all add: supp_garbage_def dict_get_default_def py_or_def)

text \<open>
  C10: \<^verbatim>\<open>check_and_update\<close> decides and updates in one step. Whenever it returns a
  decision, the suppression file held an object; if the decision is \<open>suppressed\<close>, nothing
  but the clock has moved and the file is unchanged; if it is not, the file has been
  rewritten once, with the key's entry set to the current time, the entries of the other
  keys as they were, and that time is the decision's \<^verbatim>\<open>last_emitted_at\<close>. On every file
  that holds an object whose \<^verbatim>\<open>state\<close> is a dict (or is missing) the call does return a
  decision, which is \<open>suppressed\<close> exactly when the test of the window succeeds. When the
  entry stored for the key is not a timestamp that parses (no entry, a value that is not a
  string, a string \<^verbatim>\<open>fromisoformat\<close> rejects), the call returns \<open>suppressed = False\<close> and
  the entry is overwritten by the current time.
\<close>

theorem check_and_update_atomic:
  "(\<forall>d w'. check_and_update E key window w = (Inr d, w') \<longrightarrow>
      (\<exists>doc state.
         supp_file w = Json (JObj doc) \<and>
         py_or (dict_get_default doc ''state'' (JObj [])) (JObj []) = JObj state \<and>
         (suppressed d \<longrightarrow> w' = w\<lparr>ticks := Suc (ticks w)\<rparr> \<and> supp_file w' = supp_file w) \<and>
         (\<not> suppressed d \<longrightarrow>
            w' = w\<lparr>ticks := Suc (ticks w),
                   supp_file := Json (sort_keys (JObj (dict_set doc ''state''
                     (JObj (dict_set state key (JStr (isoformat (utc_datetime (clock E (ticks w))))))))))\<rparr> \<and>
            last_emitted_at d = Some (isoformat (utc_datetime (clock E (ticks w)))) \<and>
            map_of (dict_set state key (JStr (isoformat (utc_datetime (clock E (ticks w)))))) key
              = Some (JStr (isoformat (utc_datetime (clock E (ticks w))))) \<and>
            (\<forall>k. k \<noteq> key \<longrightarrow>
               map_of (dict_set state key (JStr (isoformat (utc_datetime (clock E (ticks w)))))) k
                 = map_of state k)))) \<and>
   (\<forall>doc state.
      supp_file w = Json (JObj doc) \<longrightarrow>
      py_or (dict_get_default doc ''state'' (JObj [])) (JObj []) = JObj state \<longrightarrow>
      (\<exists>d w'. check_and_update E key window w = (Inr d, w') \<and>
         (suppressed d \<longleftrightarrow>
            within_window E (utc_datetime (clock E (ticks w))) (dict_get state key) window)) \<and>
      ((\<forall>s. dict_get state key = JStr s \<longrightarrow> fromisoformat E s = None) \<longrightarrow>
         check_and_update E key window w =
           (Inr \<lparr>suppressed = False, suppression_key = key, window_minutes = window,
                  last_emitted_at = Some (isoformat (utc_datetime (clock E (ticks w)))),
                  reason = ''EMIT_ALLOWED''\<rparr>,
            w\<lparr>ticks := Suc (ticks w),
              supp_file := Json (sort_keys (JObj (dict_set doc ''state''
                (JObj (dict_set state key (JStr (isoformat (utc_datetime (clock E (ticks w))))))))))\<rparr>)))"
proof (intro conjI allI impI)
  fix d w'
  assume run: "check_and_update E key window w = (Inr d, w')"
  then obtain doc where doc: "supp_file w = Json (JObj doc)"
    by (auto simp: check_and_update_def read_json_def split: content.splits json.splits sum.splits)
  from run doc obtain state where
    state: "py_or (dict_get_default doc ''state'' (JObj [])) (JObj []) = JObj state"
    by (auto simp: check_and_update_def read_json_def now_utc_def split: json.splits)
  let ?now = "utc_datetime (clock E (ticks w))"
  show "\<exists>doc state.
         supp_file w = Json (JObj doc) \<and>
         py_or (dict_get_default doc ''state'' (JObj [])) (JObj []) = JObj state \<and>
         (suppressed d \<longrightarrow> w' = w\<lparr>ticks := Suc (ticks w)\<rparr> \<and> supp_file w' = supp_file w) \<and>
         (\<not> suppressed d \<longrightarrow>
            w' = w\<lparr>ticks := Suc (ticks w),
                   supp_file := Json (sort_keys (JObj (dict_set doc ''state''
                     (JObj (dict_set state key (JStr (isoformat ?now))))))) \<rparr> \<and>
            last_emitted_at d = Some (isoformat ?now) \<and>
            map_of (dict_set state key (JStr (isoformat ?now))) key = Some (JStr (isoformat ?now)) \<and>
            (\<forall>k. k \<noteq> key \<longrightarrow> map_of (dict_set state key (JStr (isoformat ?now))) k = map_of state k))"
  proof (cases "within_window E ?now (dict_get state key) window")
    case True
    with run doc state have "suppressed d" "w' = w\<lparr>ticks := Suc (ticks w)\<rparr>"
      by (auto simp: check_and_update_def read_json_def now_utc_def)
    with doc state show ?thesis
      by auto
  next
    case False
    with run doc state have "\<not> suppressed d"
      "w' = w\<lparr>ticks := Suc (ticks w),
             supp_file := Json (sort_keys (JObj (dict_set doc ''state''
                       (JObj (dict_set state key (JStr (isoformat ?now)))))))\<rparr>"
      "last_emitted_at d = Some (isoformat ?now)"
      by (auto simp: check_and_update_def read_json_def now_utc_def)
    with doc state show ?thesis
      by (auto simp: dict_set_def update_conv')
  qed
next
  fix doc state
  assume "supp_file w = Json (JObj doc)"
    and "py_or (dict_get_default doc ''state'' (JObj [])) (JObj []) = JObj state"
  then show "\<exists>d w'. check_and_update E key window w = (Inr d, w') \<and>
         (suppressed d \<longleftrightarrow>
            within_window E (utc_datetime (clock E (ticks w))) (dict_get state key) window)"
    by (simp add: check_and_update_def read_json_def now_utc_def)
next
  fix doc state
  assume doc: "supp_file w = Json (JObj doc)"
    and state: "py_or (dict_get_default doc ''state'' (JObj [])) (JObj []) = JObj state"
    and bad: "\<forall>s. dict_get state key = JStr s \<longrightarrow> fromisoformat E s = None"
  have "\<not> within_window E (utc_datetime (clock E (ticks w))) (dict_get state key) window"
    using bad by (auto simp: within_window_def split: json.splits option.splits)
  with doc state show "check_and_update E key window w =
           (Inr \<lparr>suppressed = False, suppression_key = key, window_minutes = window,
                  last_emitted_at = Some (isoformat (utc_datetime (clock E (ticks w)))),
                  reason = ''EMIT_ALLOWED''\<rparr>,
            w\<lparr>ticks := Suc (ticks w),
              supp_file := Json (sort_keys (JObj (dict_set doc ''state''
                (JObj (dict_set state key (JStr (isoformat (utc_datetime (clock E (ticks w))))))))))\<rparr>)"
    by (simp add: check_and_update_def read_json_def now_utc_def)
qed

theorem check_and_update_atomic_witness:
  "check_and_update env_2024 ''K'' 60 (init_world Absent) =
     (Inr first_decision, (init_world Absent)\<lparr>ticks := 1, supp_file := supp_after_first\<rparr>) \<and>
   \<not> suppressed first_decision \<and>
   last_emitted_at first_decision
     = Some (isoformat (utc_datetime (clock env_2024 (ticks (init_world Absent))))) \<and>
   check_and_update env_2024 ''K'' 60 ((init_world Absent)\<lparr>ticks := 1, supp_file := supp_after_first\<rparr>) =
     (Inr second_decision, (init_world Absent)\<lparr>ticks := 2, supp_file := supp_after_first\<rparr>) \<and>
   suppressed second_decision \<and>
   supp_file ((init_world Absent)\<lparr>ticks := 2, supp_file := supp_after_first\<rparr>)
     = supp_file ((init_world Absent)\<lparr>ticks := 1, supp_file := supp_after_first\<rparr>) \<and>
   fromisoformat env_2024 ''garbage'' = None \<and>
   check_and_update env_2024 ''K'' 60 ((init_world Absent)\<lparr>supp_file := supp_garbage\<rparr>) =
     (Inr first_decision, (init_world Absent)\<lparr>ticks := 1, supp_file := supp_after_first\<rparr>)"
proof -
  have s1: "\<not> suppressed first_decision" and s2: "suppressed second_decision"
    by (simp_all add: first_decision_def second_decision_def)
  note r1 = check_and_update_atomic [of env_2024 "''K''" 60 "init_world Absent", THEN conjunct1,
      rule_format, OF check_first]
  note r2 = check_and_update_atomic [of env_2024 "''K''" 60
      "(init_world Absent)\<lparr>ticks := 1, supp_file := supp_after_first\<rparr>", THEN conjunct1,
      rule_format, OF check_second]
  from r1 s1
  have a: "last_emitted_at first_decision
     = Some (isoformat (utc_datetime (clock env_2024 (ticks (init_world Absent)))))"
    by blast
  from r2 s2
  have b: "supp_file ((init_world Absent)\<lparr>ticks := 2, supp_file := supp_after_first\<rparr>)
     = supp_file ((init_world Absent)\<lparr>ticks := 1, supp_file := supp_after_first\<rparr>)"
    by blast
  have g: "fromisoformat env_2024 ''garbage'' = None"
    by (simp add: garbage_unparsable)
  have bad: "\<forall>s. dict_get [(''K'', JStr ''garbage'')] ''K'' = JStr s \<longrightarrow> fromisoformat env_2024 s = None"
    by (simp add: dict_get_def garbage_unparsable)
  note r3 = check_and_update_atomic [of env_2024 "''K''" 60
      "(init_world Absent)\<lparr>supp_file := supp_garbage\<rparr>", THEN conjunct2, rule_format,
      OF supp_garbage_state, THEN conjunct2, rule_format, OF bad [rule_format]]
  have c: "check_and_update env_2024 ''K'' 60 ((init_world Absent)\<lparr>supp_file := supp_garbage\<rparr>) =
     (Inr first_decision, (init_world Absent)\<lparr>ticks := 1, supp_file := supp_after_first\<rparr>)"
    using r3
    by (simp add: init_world_def isoformat_t_2024 first_decision_def supp_after_first_def
        dict_set_def sort_keys.simps)
  show ?thesis
    using check_first check_second s1 s2 a b g c by blast
qed

section \<open>The scenario: one open record, never completed\<close>

lemma scenario_open_fields:
  "safe_str E (dict_get [(''event_type'', JStr ''STEP_OPENED''),
           (''event_timestamp'', JStr ''2024-01-01T00:00:00Z''),
           (''batch_token'', JStr ''BT-1'')] ''event_type'') = Some ''STEP_OPENED''"
  "safe_str E (dict_get [(''event_type'', JStr ''STEP_OPENED''),
           (''event_timestamp'', JStr ''2024-01-01T00:00:00Z''),
           (''batch_token'', JStr ''BT-1'')] ''batch_token'') = Some ''BT-1''"
  "safe_str E (dict_get [(''event_type'', JStr ''STEP_OPENED''),
           (''event_timestamp'', JStr ''2024-01-01T00:00:00Z''),
           (''batch_token'', JStr ''BT-1'')] ''event_timestamp'') = Some ''2024-01-01T00:00:00Z''"
  "safe_str E (dict_get [(''event_type'', JStr ''STEP_OPENED''),
           (''event_timestamp'', JStr ''2024-01-01T00:00:00Z''),
           (''batch_token'', JStr ''BT-1'')] ''event_id'') = None"
  by (simp_all add: dict_get_def safe_str_JStr safe_str_JNull strip_literals)

lemma index_scenario:
  "index_completions E ''STEP_COMPLETED'' [scenario_open] [] w = ([], w)"
  by (simp add: scenario_open_def scenario_open_fields)

lemma parse_scenario_open:
  "fromisoformat E = fromisoformat_core \<Longrightarrow>
   app_parse_iso E ''2024-01-01T00:00:00Z'' = Some (utc_datetime t_2024)"
  by (simp add: app_parse_iso_def endswith_def parse_t_2024)

lemma deadline_scenario:
  "deadline_of (utc_datetime t_2024) 60 = Inr (utc_datetime (t_2024 + usec_per_hour))"
  by (simp add: deadline_of_def timedelta_minutes_def dt_add_def utc_datetime_def t_2024_def
      usec_per_day_def max_wall_def usec_per_hour_def)

lemma sweep_id_scenario:
  "''SWEEP-'' @ ''BT-1'' @ ''-'' @ int_str (int_timestamp (utc_instant (utc_datetime t_2024)))
     = ''SWEEP-BT-1-1704067200''"
  by (simp add: int_str_def int_timestamp_def utc_instant_def utc_datetime_def t_2024_def
      epoch_wall_def double_defs nat_str.simps)

lemma synthetic_scenario:
  "synthetic_event E [(''event_type'', JStr ''STEP_OPENED''),
           (''event_timestamp'', JStr ''2024-01-01T00:00:00Z''),
           (''batch_token'', JStr ''BT-1'')] ''BT-1'' (utc_datetime t_2024)
       (utc_datetime (t_2024 + usec_per_hour)) received = scenario_event received"
  unfolding synthetic_event_def safe_str_or_def scenario_open_fields option.case sweep_id_scenario
    isoformat_deadline
  by (simp add: dict_set_def sweep_defaults_def dict_setdefault_def dict_has_def scenario_event_def)

lemma candidate_scenario_general:
  assumes "fromisoformat E = fromisoformat_core"
    and "utcoffset now = Some 0" and "t_2024 + usec_per_hour \<le> wall now"
    and "completed_within (utc_datetime t_2024) (utc_datetime (t_2024 + usec_per_hour))
           (completions_of cmpl ''BT-1'') = Inr False"
  shows "timeout_candidate E default_cfg now cmpl scenario_open w =
           (Inr (Some (scenario_event (isoformat (utc_datetime (clock E (ticks w)))))),
            w\<lparr>ticks := Suc (ticks w)\<rparr>)"
  using assms
  by (simp add: timeout_candidate_def scenario_open_def scenario_open_fields timestamp_or_now_def
      parse_scenario_open default_cfg_def deadline_scenario dt_le_def utc_datetime_sel
      now_utc_def synthetic_scenario)

lemma candidate_scenario:
  assumes "fromisoformat E = fromisoformat_core"
    and "utcoffset now = Some 0" and "t_2024 + usec_per_hour \<le> wall now"
  shows "timeout_candidate E default_cfg now [] scenario_open w =
           (Inr (Some (scenario_event (isoformat (utc_datetime (clock E (ticks w)))))),
            w\<lparr>ticks := Suc (ticks w)\<rparr>)"
  using assms by (intro candidate_scenario_general) (simp_all add: completions_of_def)

lemma key_scenario:
  "suppression_key_of E (scenario_event received) ''R-002-STEP_TIMEOUT'' = scenario_key"
  by (simp add: suppression_key_of_def scenario_event_def dict_get_def safe_str_or_def safe_str_JStr
      strip_literals scenario_key_def)

lemma event_id_scenario:
  "safe_str E (dict_get (scenario_event received) ''event_id'') = Some ''SWEEP-BT-1-1704067200''"
  "safe_str_or E (dict_get (scenario_event received) ''event_id'') ''UNKNOWN'' = ''SWEEP-BT-1-1704067200''"
  by (simp_all add: scenario_event_def dict_get_def safe_str_or_def safe_str_JStr strip_literals)

lemma build_alert_scenario:
  "build_alert E (scenario_event received) default_cfg w =
     (scenario_alert (''ALT-'' @ take 24 (uuid4_hex E (uuids_drawn w)))
        (isoformat (utc_datetime (clock E (ticks w)))),
      log_audit (AlertBuilt (Some ''SWEEP-BT-1-1704067200'')
                   (''ALT-'' @ take 24 (uuid4_hex E (uuids_drawn w)))
                   ''R-002-STEP_TIMEOUT'' None None)
        (w\<lparr>ticks := Suc (ticks w), uuids_drawn := Suc (uuids_drawn w)\<rparr>))"
  by (simp add: build_alert_def now_utc_def scenario_event_def dict_get_default_def dict_get_def
      py_str_def default_cfg_def opt_json_def alert_optional_keys_def dict_has_def dict_set_def
      scenario_alert_def log_audit_def Let_def)

lemma check_scenario:
  "check_and_update env_sweeps scenario_key W
     \<lparr>ticks = 2, corr_file = c, supp_file = Json (JObj [(''state'', JObj []), (''version'', JStr ''0.1'')]),
      alerts_file = al, audit_log = au, uuids_drawn = u, stderr = se, stdout = so\<rparr> =
   (Inr \<lparr>suppressed = False, suppression_key = scenario_key, window_minutes = W,
         last_emitted_at = Some ''2024-01-01T02:00:00.000002+00:00'', reason = ''EMIT_ALLOWED''\<rparr>,
    \<lparr>ticks = 3, corr_file = c,
      supp_file = Json (JObj [(''state'', JObj [(scenario_key, JStr ''2024-01-01T02:00:00.000002+00:00'')]),
                    (''version'', JStr ''0.1'')]),
      alerts_file = al, audit_log = au, uuids_drawn = u, stderr = se, stdout = so\<rparr>)"
  by (simp add: check_and_update_def read_json_def now_utc_def dict_get_default_def
      py_or_def within_window_def dict_get_def sweep_clock_readings iso_0200 dict_set_def sort_keys.simps)



lemma alert_id_str:
  "py_str E (dict_get_default (scenario_alert a c) ''alert_id'' (JStr [])) = a"
  by (simp_all add: scenario_alert_def dict_get_default_def py_str_def)

lemma emit_scenario:
  "emit_alert env_sweeps demo_policy default_cfg (scenario_event r)
     ((init_world (Json scenario_doc))\<lparr>ticks := 2\<rparr>) =
   (Inr True, world_after_sweep\<lparr>stdout := []\<rparr>)"
  unfolding emit_alert_def emit_routed_def default_cfg_fields normalize_nil key_scenario event_id_scenario
  by (simp add: init_world_def log_audit_def check_scenario build_alert_scenario sweep_clock_readings
      iso_0200 alert_ids [simplified] alert_id_str world_after_sweep_def demo_policy_def scenario_audit_def)


lemma state_groups_scenario:
  "state_groups scenario_doc = JObj [(''S1|A1|P1|T1|STEP1|SEC1'', JArr [scenario_open])]"
  by (simp add: state_groups_def scenario_doc_def dict_get_default_def)

lemma hour_positive: "0 \<le> usec_per_hour"
  by (simp add: usec_per_hour_def)

lemma process_scenario_first:
  "process_opening env_sweeps demo_policy default_cfg (utc_datetime (t_2024 + 2 * usec_per_hour)) []
     scenario_open 0 ((init_world (Json scenario_doc))\<lparr>ticks := Suc 0\<rparr>)
   = (Inr (Suc 0), world_after_sweep\<lparr>stdout := []\<rparr>)"
proof -
  have c: "timeout_candidate env_sweeps default_cfg (utc_datetime (t_2024 + 2 * usec_per_hour)) []
      scenario_open ((init_world (Json scenario_doc))\<lparr>ticks := Suc 0\<rparr>)
    = (Inr (Some (scenario_event ''2024-01-01T02:00:00.000001+00:00'')),
       (init_world (Json scenario_doc))\<lparr>ticks := 2\<rparr>)"
    by (subst candidate_scenario)
      (simp_all add: utc_datetime_sel hour_positive sweep_clock_readings iso_0200)
  show ?thesis
    by (simp add: process_opening_def c emit_scenario)
qed


lemma emitted_one: "int_str 1 = ''1''"
  by (simp add: int_str_def nat_str.simps)

lemma first_sweep:
  "sweep_timeouts env_sweeps demo_policy scenario_cfg_file (init_world (Json scenario_doc))
     = (Inr 0, world_after_sweep)"
proof -
  have c: "corr_file (init_world (Json scenario_doc)) = Json scenario_doc"
    "ticks (init_world (Json scenario_doc)) = 0"
    by (simp_all add: init_world_def)
  show ?thesis
    by (simp add: sweep_timeouts_def scenario_cfg_file_def load_json_obj_def dict_get_default_def
        parse_default_cfg read_json_def c state_groups_scenario now_utc_def sweep_clock_readings
        default_cfg_fields index_scenario process_scenario_first [simplified] emitted_one
        world_after_sweep_def del: index_completions.simps)
qed


section \<open>The alert-input of the scenario\<close>

lemma scenario_event_fields:
  "dict_get (scenario_event received) ''event_timestamp'' = JStr ''2024-01-01T01:00:00+00:00''"
  "dict_get (scenario_event received) ''event_id'' = JStr ''SWEEP-BT-1-1704067200''"
  by (simp_all add: scenario_event_def dict_get_def)

lemma parse_deadline_forms:
  assumes "fromisoformat E = fromisoformat_core"
  shows "app_parse_iso E ''2024-01-01T01:00:00Z'' = Some (utc_datetime (t_2024 + usec_per_hour))"
    and "app_parse_iso E ''2024-01-01T01:00:00+00:00'' = Some (utc_datetime (t_2024 + usec_per_hour))"
  using assms
  by (simp_all add: app_parse_iso_def endswith_def parse_defs utc_datetime_def t_2024_def
      usec_per_hour_def cong: let_weak_cong)

text \<open>
  C1, as stated, fails on the text of the timestamp: the synthetic alert-input of the
  scenario carries the deadline as \<^verbatim>\<open>isoformat()\<close> writes it, with the offset \<^verbatim>\<open>+00:00\<close>, so
  its \<^verbatim>\<open>event_timestamp\<close> is \<^verbatim>\<open>2024-01-01T01:00:00+00:00\<close> and not the string
  \<^verbatim>\<open>2024-01-01T01:00:00Z\<close>.
\<close>

theorem scenario_timestamp_counterexample:
  "timeout_candidate env_sweeps default_cfg (utc_datetime (t_2024 + 2 * usec_per_hour))
     (fst (index_completions env_sweeps (pair_type default_cfg) [scenario_open] []
             ((init_world (Json scenario_doc))\<lparr>ticks := Suc 0\<rparr>)))
     scenario_open ((init_world (Json scenario_doc))\<lparr>ticks := Suc 0\<rparr>)
   = (Inr (Some (scenario_event ''2024-01-01T02:00:00.000001+00:00'')),
      (init_world (Json scenario_doc))\<lparr>ticks := 2\<rparr>) \<and>
   dict_get (scenario_event ''2024-01-01T02:00:00.000001+00:00'') ''event_timestamp''
     = JStr ''2024-01-01T01:00:00+00:00'' \<and>
   dict_get (scenario_event ''2024-01-01T02:00:00.000001+00:00'') ''event_timestamp''
     \<noteq> JStr ''2024-01-01T01:00:00Z''"
proof -
  have "timeout_candidate env_sweeps default_cfg (utc_datetime (t_2024 + 2 * usec_per_hour)) []
      scenario_open ((init_world (Json scenario_doc))\<lparr>ticks := Suc 0\<rparr>)
    = (Inr (Some (scenario_event ''2024-01-01T02:00:00.000001+00:00'')),
       (init_world (Json scenario_doc))\<lparr>ticks := 2\<rparr>)"
    by (subst candidate_scenario)
      (simp_all add: utc_datetime_sel hour_positive sweep_clock_readings iso_0200)
  then show ?thesis
    by (simp add: default_cfg_fields index_scenario scenario_event_fields
        del: index_completions.simps)
qed

text \<open>
  C1, amended: for the group holding exactly the one record \<^verbatim>\<open>STEP_OPENED\<close>,
  \<^verbatim>\<open>2024-01-01T00:00:00Z\<close>, \<^verbatim>\<open>BT-1\<close>, the sweep with threshold 60, invoked at any time \<open>t\<close>
  at or after 2024-01-01T01:00:00Z (so at 02:00:00Z), in any state of the world, finds no
  completion and produces exactly one synthetic alert-input, which it hands once to the
  routing, suppression and persistence steps. Its \<^verbatim>\<open>event_timestamp\<close> is the open timestamp
  plus the threshold as \<^verbatim>\<open>isoformat()\<close> writes it, \<^verbatim>\<open>2024-01-01T01:00:00+00:00\<close>, which denotes
  the instant 2024-01-01T01:00:00Z; its \<^verbatim>\<open>event_id\<close> is \<^verbatim>\<open>SWEEP-BT-1-1704067200\<close>, made of the
  batch token and the whole seconds of the open timestamp since 1970, the same at every
  such sweep. Only the receipt time of the alert-input depends on the sweep.
\<close>

theorem scenario_timeout_alert:
  assumes "fromisoformat E = fromisoformat_core"
    and "t_2024 + usec_per_hour \<le> t"
  shows "index_completions E (pair_type default_cfg) [scenario_open] [] w = ([], w) \<and>
         timeout_candidate E default_cfg (utc_datetime t) [] scenario_open w
           = (Inr (Some (scenario_event (isoformat (utc_datetime (clock E (ticks w)))))),
              w\<lparr>ticks := Suc (ticks w)\<rparr>) \<and>
         sweep_openings E pol default_cfg (utc_datetime t) [] [scenario_open] 0 w
           = (case emit_alert E pol default_cfg
                     (scenario_event (isoformat (utc_datetime (clock E (ticks w)))))
                     (w\<lparr>ticks := Suc (ticks w)\<rparr>) of
                (Inl ex, w2) \<Rightarrow> (Inl ex, w2)
              | (Inr b, w2) \<Rightarrow> (Inr (if b then 1 else 0), w2)) \<and>
         dict_get (scenario_event (isoformat (utc_datetime (clock E (ticks w))))) ''event_timestamp''
           = JStr ''2024-01-01T01:00:00+00:00'' \<and>
         app_parse_iso E ''2024-01-01T01:00:00+00:00'' = app_parse_iso E ''2024-01-01T01:00:00Z'' \<and>
         app_parse_iso E ''2024-01-01T01:00:00+00:00'' = Some (utc_datetime (t_2024 + 3600000000)) \<and>
         dict_get (scenario_event (isoformat (utc_datetime (clock E (ticks w))))) ''event_id''
           = JStr ''SWEEP-BT-1-1704067200''"
proof -
  have c: "timeout_candidate E default_cfg (utc_datetime t) [] scenario_open w
           = (Inr (Some (scenario_event (isoformat (utc_datetime (clock E (ticks w)))))),
              w\<lparr>ticks := Suc (ticks w)\<rparr>)"
    using assms by (intro candidate_scenario) (simp_all add: utc_datetime_sel)
  have s: "sweep_openings E pol default_cfg (utc_datetime t) [] [scenario_open] 0 w
           = (case emit_alert E pol default_cfg
                     (scenario_event (isoformat (utc_datetime (clock E (ticks w)))))
                     (w\<lparr>ticks := Suc (ticks w)\<rparr>) of
                (Inl ex, w2) \<Rightarrow> (Inl ex, w2)
              | (Inr b, w2) \<Rightarrow> (Inr (if b then 1 else 0), w2))"
    by (simp add: process_opening_def c split: prod.splits sum.splits)
  have h: "t_2024 + 3600000000 = t_2024 + usec_per_hour"
    by (simp add: usec_per_hour_def)
  show ?thesis
    using c s parse_deadline_forms [OF assms(1)]
    by (simp add: default_cfg_fields index_scenario scenario_event_fields h
        del: index_completions.simps sweep_openings.simps)
qed

theorem scenario_timeout_alert_witness:
  "fromisoformat env_sweeps = fromisoformat_core \<and>
   t_2024 + usec_per_hour \<le> t_2024 + 2 * usec_per_hour \<and>
   timeout_candidate env_sweeps default_cfg (utc_datetime (t_2024 + 2 * usec_per_hour)) []
       scenario_open ((init_world (Json scenario_doc))\<lparr>ticks := Suc 0\<rparr>)
     = (Inr (Some (scenario_event ''2024-01-01T02:00:00.000001+00:00'')),
        (init_world (Json scenario_doc))\<lparr>ticks := 2\<rparr>) \<and>
   dict_get (scenario_event ''2024-01-01T02:00:00.000001+00:00'') ''event_id''
     = JStr ''SWEEP-BT-1-1704067200'' \<and>
   timeout_candidate env_sweeps default_cfg (utc_datetime (t_2024 + 3 * usec_per_hour)) []
       scenario_open (world_after_sweep\<lparr>ticks := 5\<rparr>)
     = (Inr (Some (scenario_event ''2024-01-01T03:00:00.000001+00:00'')),
        world_after_sweep\<lparr>ticks := 6\<rparr>) \<and>
   dict_get (scenario_event ''2024-01-01T03:00:00.000001+00:00'') ''event_id''
     = JStr ''SWEEP-BT-1-1704067200'' \<and>
   sweep_timeouts env_sweeps demo_policy scenario_cfg_file (init_world (Json scenario_doc))
     = (Inr 0, world_after_sweep) \<and>
   length (alerts_file world_after_sweep) = 1"
proof -
  have f: "fromisoformat env_sweeps = fromisoformat_core"
    by simp
  have l1: "t_2024 + usec_per_hour \<le> t_2024 + 2 * usec_per_hour"
    and l2: "t_2024 + usec_per_hour \<le> t_2024 + 3 * usec_per_hour"
    by (simp_all add: usec_per_hour_def)
  note r1 = scenario_timeout_alert [OF f l1,
      of "(init_world (Json scenario_doc))\<lparr>ticks := Suc 0\<rparr>" demo_policy]
  note r2 = scenario_timeout_alert [OF f l2, of "world_after_sweep\<lparr>ticks := 5\<rparr>" demo_policy]
  have c1: "timeout_candidate env_sweeps default_cfg (utc_datetime (t_2024 + 2 * usec_per_hour)) []
       scenario_open ((init_world (Json scenario_doc))\<lparr>ticks := Suc 0\<rparr>)
     = (Inr (Some (scenario_event ''2024-01-01T02:00:00.000001+00:00'')),
        (init_world (Json scenario_doc))\<lparr>ticks := 2\<rparr>)"
    using r1 [THEN conjunct2, THEN conjunct1]
    by (simp add: sweep_clock_readings iso_0200)
  have c2: "timeout_candidate env_sweeps default_cfg (utc_datetime (t_2024 + 3 * usec_per_hour)) []
       scenario_open (world_after_sweep\<lparr>ticks := 5\<rparr>)
     = (Inr (Some (scenario_event ''2024-01-01T03:00:00.000001+00:00'')),
        world_after_sweep\<lparr>ticks := 6\<rparr>)"
    using r2 [THEN conjunct2, THEN conjunct1]
    by (simp add: sweep_clock_readings iso_0300)
  have n: "length (alerts_file world_after_sweep) = 1"
    by (simp add: world_after_sweep_def)
  show ?thesis
    using f l1 c1 c2 first_sweep n by (simp add: scenario_event_fields)
qed

section \<open>Opens that were completed in time\<close>

lemma completions_of_add:
  "completions_of (add_completion cmpl bt ts) bt' =
     (if bt' = bt then completions_of cmpl bt @ [ts] else completions_of cmpl bt')"
  by (simp add: completions_of_def add_completion_def update_conv')

lemma index_completions_mono:
  "set (completions_of cmpl bt) \<subseteq> set (completions_of (fst (index_completions E p es cmpl w)) bt)"
proof (induction es arbitrary: cmpl w)
  case Nil
  then show ?case by simp
next
  case (Cons e es)
  show ?case
  proof (cases e)
    case (JObj r)
    show ?thesis
    proof (cases "safe_str E (dict_get r ''event_type'') = Some p")
      case False
      then show ?thesis using Cons.IH JObj by simp
    next
      case True
      show ?thesis
      proof (cases "safe_str E (dict_get r ''batch_token'')")
        case None
        then show ?thesis using Cons.IH JObj True by simp
      next
        case (Some b)
        obtain s w1 where ton: "timestamp_or_now E r w = (s, w1)"
          by (cases "timestamp_or_now E r w")
        show ?thesis
        proof (cases "app_parse_iso E s")
          case None
          then show ?thesis using Cons.IH JObj True Some ton by simp
        next
          case (Some ts)
          have "set (completions_of cmpl bt) \<subseteq> set (completions_of (add_completion cmpl b ts) bt)"
            by (auto simp: completions_of_add)
          also have "\<dots> \<subseteq> set (completions_of
              (fst (index_completions E p es (add_completion cmpl b ts) w1)) bt)"
            by (rule Cons.IH)
          finally show ?thesis
            using JObj True \<open>safe_str E (dict_get r ''batch_token'') = Some b\<close> ton Some by simp
        qed
      qed
    qed
  qed (use Cons.IH in simp_all)
qed

lemma index_completions_finds:
  assumes "c \<in> set es" and "lifecycle_record E p bt t c"
  shows "t \<in> set (completions_of (fst (index_completions E p es cmpl w)) bt)"
  using assms
proof (induction es arbitrary: cmpl w)
  case Nil
  then show ?case by simp
next
  case (Cons e es)
  show ?case
  proof (cases "c = e")
    case True
    from Cons.prems(2) True obtain r s where e: "e = JObj r"
      and ty: "safe_str E (dict_get r ''event_type'') = Some p"
      and tok: "safe_str E (dict_get r ''batch_token'') = Some bt"
      and ts: "safe_str E (dict_get r ''event_timestamp'') = Some s"
      and parse: "app_parse_iso E s = Some t"
      by (auto simp: lifecycle_record_def split: json.splits option.splits)
    have "t \<in> set (completions_of (add_completion cmpl bt t) bt)"
      by (simp add: completions_of_add)
    then have "t \<in> set (completions_of (fst (index_completions E p es (add_completion cmpl bt t) w)) bt)"
      using index_completions_mono by blast
    then show ?thesis
      by (simp add: e ty tok ts parse timestamp_or_now_def)
  next
    case False
    with Cons.prems have "c \<in> set es" by simp
    from Cons.IH [OF this Cons.prems(2)] show ?thesis
      by (auto split: json.splits option.splits prod.splits)
  qed
qed

lemma completed_within_found:
  assumes "c \<in> set cs"
    and "(dt_le opened_at c = Inr True \<and> dt_le c deadline = Inr True) \<or> (\<exists>ex. dt_le opened_at c = Inl ex)"
  shows "completed_within opened_at deadline cs \<noteq> Inr False"
  using assms
  by (induction cs) (auto split: sum.splits)

lemma completed_within_aware:
  assumes "utcoffset opened_at \<noteq> None" and "utcoffset deadline \<noteq> None"
    and "\<forall>ts \<in> set cs. utcoffset ts \<noteq> None"
  shows "\<exists>b. completed_within opened_at deadline cs = Inr b"
  using assms
  by (induction cs) (auto simp: dt_le_def split: sum.splits)

lemma deadline_of_value:
  assumes "deadline_of opened_at thr = Inr deadline"
  shows "deadline = opened_at\<lparr>wall := wall opened_at + thr * 60000000\<rparr>"
  using assms
  by (auto simp: deadline_of_def timedelta_minutes_def dt_add_def Let_def split: sum.splits if_splits)

lemma completion_in_window:
  assumes "utc_instant completed_at = utc_instant opened_at + delta"
    and "0 \<le> delta" and "delta \<le> thr * 60000000"
    and "deadline = opened_at\<lparr>wall := wall opened_at + thr * 60000000\<rparr>"
  shows "(dt_le opened_at completed_at = Inr True \<and> dt_le completed_at deadline = Inr True) \<or>
         (\<exists>ex. dt_le opened_at completed_at = Inl ex)"
  using assms by (auto simp: dt_le_def utc_instant_def split: option.splits)

lemma candidate_resolved:
  assumes op: "lifecycle_record E ''STEP_OPENED'' bt opened_at e"
    and found: "completed_at \<in> set (completions_of cmpl bt)"
    and delta: "utc_instant completed_at = utc_instant opened_at + delta"
      "0 \<le> delta" "delta \<le> threshold_min cfg * 60000000"
  shows "timeout_candidate E cfg now cmpl e w = (Inr None, w) \<or>
         (\<exists>ex. timeout_candidate E cfg now cmpl e w = (Inl ex, w))"
proof -
  from op obtain r s where e: "e = JObj r"
    and ty: "safe_str E (dict_get r ''event_type'') = Some ''STEP_OPENED''"
    and tok: "safe_str E (dict_get r ''batch_token'') = Some bt"
    and ts: "safe_str E (dict_get r ''event_timestamp'') = Some s"
    and parse: "app_parse_iso E s = Some opened_at"
    by (auto simp: lifecycle_record_def split: json.splits option.splits)
  have ton: "timestamp_or_now E r w = (s, w)"
    by (simp add: timestamp_or_now_def ts)
  show ?thesis
  proof (cases "deadline_of opened_at (threshold_min cfg)")
    case (Inl ex)
    then show ?thesis
      by (simp add: timeout_candidate_def e ty tok ton parse)
  next
    case (Inr deadline)
    note dl = deadline_of_value [OF Inr]
    from completed_within_found [OF found completion_in_window [OF delta dl]]
    have cw: "completed_within opened_at deadline (completions_of cmpl bt) \<noteq> Inr False" .
    show ?thesis
    proof (cases "dt_le deadline now")
      case (Inl ex)
      then show ?thesis
        by (simp add: timeout_candidate_def e ty tok ton parse Inr)
    next
      case overdue: (Inr b)
      show ?thesis
      proof (cases "completed_within opened_at deadline (completions_of cmpl bt)")
        case (Inl ex)
        with overdue show ?thesis
          by (simp add: timeout_candidate_def e ty tok ton parse Inr)
      next
        case ok: (Inr b')
        with cw have "b'" by auto
        with overdue ok show ?thesis
          by (simp add: timeout_candidate_def e ty tok ton parse Inr)
      qed
    qed
  qed
qed

lemma candidate_no_exception:
  assumes op: "lifecycle_record E ''STEP_OPENED'' bt opened_at e"
    and aware: "utcoffset opened_at \<noteq> None" "\<forall>ts \<in> set (completions_of cmpl bt). utcoffset ts \<noteq> None"
    and dl: "deadline_of opened_at (threshold_min cfg) = Inr deadline"
  shows "\<exists>r w'. timeout_candidate E cfg (utc_datetime t) cmpl e w = (Inr r, w')"
proof -
  from op obtain r s where e: "e = JObj r"
    and ty: "safe_str E (dict_get r ''event_type'') = Some ''STEP_OPENED''"
    and tok: "safe_str E (dict_get r ''batch_token'') = Some bt"
    and ts: "safe_str E (dict_get r ''event_timestamp'') = Some s"
    and parse: "app_parse_iso E s = Some opened_at"
    by (auto simp: lifecycle_record_def split: json.splits option.splits)
  have ton: "timestamp_or_now E r w = (s, w)"
    by (simp add: timestamp_or_now_def ts)
  have da: "utcoffset deadline \<noteq> None"
    using aware(1) by (simp add: deadline_of_value [OF dl])
  then obtain b where le: "dt_le deadline (utc_datetime t) = Inr b"
    by (auto simp: dt_le_def utc_datetime_def)
  from completed_within_aware [OF aware(1) da aware(2)] obtain b' where
    cw: "completed_within opened_at deadline (completions_of cmpl bt) = Inr b'"
    by blast
  show ?thesis
    by (simp add: timeout_candidate_def e ty tok ton parse dl le cw now_utc_def)
qed

lemma parse_literals:
  "fromisoformat_core ''2024-01-01T00:30:00+00:00'' = Some (utc_datetime (t_2024 + 1800000000))"
  by (simp add: parse_defs utc_datetime_def t_2024_def cong: let_weak_cong)

lemma strip_timestamps:
  "strip ''2024-01-01T00:30:00Z'' = ''2024-01-01T00:30:00Z''"
  by (simp add: strip_def py_isspace_def)

lemma open_is_lifecycle:
  "fromisoformat E = fromisoformat_core \<Longrightarrow>
   lifecycle_record E ''STEP_OPENED'' ''BT-1'' (utc_datetime t_2024) scenario_open"
  by (simp add: lifecycle_record_def scenario_open_def scenario_open_fields parse_scenario_open)

lemma completed_is_lifecycle:
  "fromisoformat E = fromisoformat_core \<Longrightarrow>
   lifecycle_record E ''STEP_COMPLETED'' ''BT-1'' (utc_datetime (t_2024 + 1800000000))
     (scenario_completed ''2024-01-01T00:30:00Z'')"
  by (simp add: lifecycle_record_def scenario_completed_def dict_get_def safe_str_JStr
      strip_literals strip_timestamps app_parse_iso_def endswith_def parse_literals)

lemma index_in_time:
  "fromisoformat E = fromisoformat_core \<Longrightarrow>
   index_completions E ''STEP_COMPLETED'' [scenario_open, scenario_completed ''2024-01-01T00:30:00Z''] [] w
     = ([(''BT-1'', [utc_datetime (t_2024 + 1800000000)])], w)"
  by (simp add: scenario_completed_def scenario_open_def scenario_open_fields dict_get_def
      safe_str_JStr strip_literals strip_timestamps timestamp_or_now_def app_parse_iso_def
      endswith_def parse_literals add_completion_def completions_of_def)

text \<open>
  C2: in a group, let an "opened" record carry the non-empty batch token \<open>B\<close> and a
  timestamp at the instant \<open>T\<close>, and let the group contain a record of the configured pair
  event type for \<open>B\<close> at the instant \<open>T + \<Delta>\<close> with \<open>0 \<le> \<Delta> \<le> threshold\<close> (the window
  \<^verbatim>\<open>opened_at <= t <= opened_at + threshold\<close> of the sweep). Then a sweep, at whatever
  time \<open>t\<close> it is invoked, produces no alert for that open: the loop body yields no
  synthetic alert-input, the count of emitted alerts stays as it is, and nothing is
  written (no suppression entry, no audit entry, no alert). When the timestamps involved
  carry a UTC offset, as every timestamp ending in \<^verbatim>\<open>Z\<close> does, and the deadline
  \<open>T + threshold\<close> is a representable datetime, the open is skipped: the loop goes on
  to the next record.
\<close>

theorem resolved_open_is_skipped:
  assumes "lifecycle_record E ''STEP_OPENED'' bt opened_at e"
    and "c \<in> set events"
    and "lifecycle_record E (pair_type cfg) bt completed_at c"
    and "utc_instant completed_at = utc_instant opened_at + delta"
    and "0 \<le> delta"
    and "delta \<le> threshold_min cfg * 60000000"
  shows "(\<forall>ev. fst (timeout_candidate E cfg (utc_datetime t)
                      (fst (index_completions E (pair_type cfg) events [] w0)) e w) \<noteq> Inr (Some ev)) \<and>
         snd (process_opening E pol cfg (utc_datetime t)
                (fst (index_completions E (pair_type cfg) events [] w0)) e emitted w) = w \<and>
         (\<forall>n. fst (process_opening E pol cfg (utc_datetime t)
                      (fst (index_completions E (pair_type cfg) events [] w0)) e emitted w) = Inr n
               \<longrightarrow> n = emitted) \<and>
         (utcoffset opened_at \<noteq> None \<and>
          (\<forall>ts \<in> set (completions_of (fst (index_completions E (pair_type cfg) events [] w0)) bt).
             utcoffset ts \<noteq> None) \<and>
          (\<exists>deadline. deadline_of opened_at (threshold_min cfg) = Inr deadline) \<longrightarrow>
            timeout_candidate E cfg (utc_datetime t)
              (fst (index_completions E (pair_type cfg) events [] w0)) e w = (Inr None, w) \<and>
            process_opening E pol cfg (utc_datetime t)
              (fst (index_completions E (pair_type cfg) events [] w0)) e emitted w = (Inr emitted, w))"
proof -
  let ?cmpl = "fst (index_completions E (pair_type cfg) events [] w0)"
  have found: "completed_at \<in> set (completions_of ?cmpl bt)"
    using assms(2,3) by (rule index_completions_finds)
  from candidate_resolved [OF assms(1) found assms(4-6)]
  have c: "timeout_candidate E cfg (utc_datetime t) ?cmpl e w = (Inr None, w) \<or>
         (\<exists>ex. timeout_candidate E cfg (utc_datetime t) ?cmpl e w = (Inl ex, w))" .
  then have p: "process_opening E pol cfg (utc_datetime t) ?cmpl e emitted w = (Inr emitted, w) \<or>
          (\<exists>ex. process_opening E pol cfg (utc_datetime t) ?cmpl e emitted w = (Inl ex, w))"
    by (auto simp: process_opening_def)
  have skip: "timeout_candidate E cfg (utc_datetime t) ?cmpl e w = (Inr None, w) \<and>
      process_opening E pol cfg (utc_datetime t) ?cmpl e emitted w = (Inr emitted, w)"
    if "utcoffset opened_at \<noteq> None"
      and "\<forall>ts \<in> set (completions_of ?cmpl bt). utcoffset ts \<noteq> None"
      and "\<exists>deadline. deadline_of opened_at (threshold_min cfg) = Inr deadline"
  proof -
    from that(3) obtain deadline where "deadline_of opened_at (threshold_min cfg) = Inr deadline" ..
    from candidate_no_exception [OF assms(1) that(1,2) this, where t = t and w = w]
    obtain r w' where "timeout_candidate E cfg (utc_datetime t) ?cmpl e w = (Inr r, w')"
      by blast
    with c have "timeout_candidate E cfg (utc_datetime t) ?cmpl e w = (Inr None, w)"
      by auto
    then show ?thesis
      by (simp add: process_opening_def)
  qed
  from c have 1: "\<forall>ev. fst (timeout_candidate E cfg (utc_datetime t) ?cmpl e w) \<noteq> Inr (Some ev)"
    by auto
  from p have 2: "snd (process_opening E pol cfg (utc_datetime t) ?cmpl e emitted w) = w"
    and 3: "\<forall>n. fst (process_opening E pol cfg (utc_datetime t) ?cmpl e emitted w) = Inr n
               \<longrightarrow> n = emitted"
    by auto
  from 1 2 3 skip show ?thesis
    by blast
qed

theorem resolved_open_is_skipped_witness:
  "lifecycle_record env_sweeps ''STEP_OPENED'' ''BT-1'' (utc_datetime t_2024) scenario_open \<and>
   scenario_completed ''2024-01-01T00:30:00Z''
     \<in> set [scenario_open, scenario_completed ''2024-01-01T00:30:00Z''] \<and>
   lifecycle_record env_sweeps (pair_type default_cfg) ''BT-1'' (utc_datetime (t_2024 + 1800000000))
     (scenario_completed ''2024-01-01T00:30:00Z'') \<and>
   utc_instant (utc_datetime (t_2024 + 1800000000)) = utc_instant (utc_datetime t_2024) + 1800000000 \<and>
   (0::int) \<le> 1800000000 \<and> 1800000000 \<le> threshold_min default_cfg * 60000000 \<and>
   utcoffset (utc_datetime t_2024) \<noteq> None \<and>
   completions_of
       (fst (index_completions env_sweeps (pair_type default_cfg)
               [scenario_open, scenario_completed ''2024-01-01T00:30:00Z''] []
               (init_world Absent))) ''BT-1''
     = [utc_datetime (t_2024 + 1800000000)] \<and>
   utcoffset (utc_datetime (t_2024 + 1800000000)) \<noteq> None \<and>
   deadline_of (utc_datetime t_2024) (threshold_min default_cfg)
     = Inr (utc_datetime (t_2024 + usec_per_hour)) \<and>
   timeout_candidate env_sweeps default_cfg (utc_datetime (t_2024 + 2 * usec_per_hour))
     (fst (index_completions env_sweeps (pair_type default_cfg)
             [scenario_open, scenario_completed ''2024-01-01T00:30:00Z''] [] (init_world Absent)))
     scenario_open (init_world Absent) = (Inr None, init_world Absent) \<and>
   process_opening env_sweeps demo_policy default_cfg (utc_datetime (t_2024 + 2 * usec_per_hour))
     (fst (index_completions env_sweeps (pair_type default_cfg)
             [scenario_open, scenario_completed ''2024-01-01T00:30:00Z''] [] (init_world Absent)))
     scenario_open 0 (init_world Absent) = (Inr 0, init_world Absent)"
proof -
  have f: "fromisoformat env_sweeps = fromisoformat_core"
    by simp
  have h1: "lifecycle_record env_sweeps ''STEP_OPENED'' ''BT-1'' (utc_datetime t_2024) scenario_open"
    by (rule open_is_lifecycle [OF f])
  have h2: "scenario_completed ''2024-01-01T00:30:00Z''
     \<in> set [scenario_open, scenario_completed ''2024-01-01T00:30:00Z'']"
    by simp
  have h3: "lifecycle_record env_sweeps (pair_type default_cfg) ''BT-1''
      (utc_datetime (t_2024 + 1800000000)) (scenario_completed ''2024-01-01T00:30:00Z'')"
    by (simp add: default_cfg_fields completed_is_lifecycle)
  have h4: "utc_instant (utc_datetime (t_2024 + 1800000000)) = utc_instant (utc_datetime t_2024) + 1800000000"
    by (simp add: utc_instant_def utc_datetime_def)
  have h5: "(0::int) \<le> 1800000000" and h6: "1800000000 \<le> threshold_min default_cfg * 60000000"
    by (simp_all add: default_cfg_fields)
  have a1: "utcoffset (utc_datetime t_2024) \<noteq> None"
    by (simp add: utc_datetime_def)
  have a2: "\<forall>ts \<in> set (completions_of
                (fst (index_completions env_sweeps (pair_type default_cfg)
                        [scenario_open, scenario_completed ''2024-01-01T00:30:00Z''] []
                        (init_world Absent))) ''BT-1'').
      utcoffset ts \<noteq> None"
    by (simp add: default_cfg_fields index_in_time [OF f] completions_of_def utc_datetime_def
        del: index_completions.simps)
  have a3: "deadline_of (utc_datetime t_2024) (threshold_min default_cfg)
     = Inr (utc_datetime (t_2024 + usec_per_hour))"
    by (simp add: default_cfg_fields deadline_scenario)
  then have a3': "\<exists>deadline. deadline_of (utc_datetime t_2024) (threshold_min default_cfg) = Inr deadline"
    by blast
  note r = resolved_open_is_skipped [OF h1 h2 h3 h4 h5 h6,
      of "t_2024 + 2 * usec_per_hour" "init_world Absent" "init_world Absent" demo_policy 0,
      THEN conjunct2, THEN conjunct2, THEN conjunct2, rule_format, OF conjI [OF a1 conjI [OF a2 a3']]]
  have a4: "completions_of
       (fst (index_completions env_sweeps (pair_type default_cfg)
               [scenario_open, scenario_completed ''2024-01-01T00:30:00Z''] []
               (init_world Absent))) ''BT-1''
     = [utc_datetime (t_2024 + 1800000000)]"
    by (simp add: default_cfg_fields index_in_time [OF f] completions_of_def
        del: index_completions.simps)
  have a5: "utcoffset (utc_datetime (t_2024 + 1800000000)) \<noteq> None"
    by (simp add: utc_datetime_def)
  show ?thesis
    using h1 h2 h3 h4 h5 h6 a1 a4 a5 a3 r by blast
qed

section \<open>The error policy of the sweep\<close>








lemma env_strict_simps [simp]:
  "clock env_strict = sweep_clock"
  "fromisoformat env_strict = fromisoformat_core"
  "schema_ok env_strict a = False"
  "uuid4_hex env_strict n = zpad 24 n @ ''00000000''"
  by (simp_all add: env_strict_def std_env_def)





section \<open>Two sweeps in succession\<close>





















end
